theory Spec2Isabelle
  imports Main
begin

section \<open>Data model\<close>

text \<open>
  The entities are the rows the route handlers and the webhook read and write through
  Prisma. Columns that no handler modelled here reads (names, wallet addresses, bot
  tokens and the like) are left out. Row ids are cuids in the source; they are natural
  numbers here, and a created row gets an id no row of its table has.
  Money amounts are integers.
\<close>

datatype tier = FREE | PREMIUM | VIP

datatype payment_status = PENDING | COMPLETED | FAILED

datatype participant_status =
  PARTICIPANT_PENDING | PARTICIPANT_APPROVED | ACTIVE | PARTICIPANT_REJECTED | SUSPENDED

datatype promoter_status = PROMOTER_PENDING | PROMOTER_APPROVED | PROMOTER_REJECTED

datatype role = PARTICIPANT | PROMOTER | ADMIN

datatype json = JString string | JNumber int

record user =
  user_id :: nat
  user_email :: string
  user_role :: role

record participant =
  part_id :: nat
  part_userId :: nat
  part_tier :: tier
  part_status :: participant_status
  referredBy :: "string option"

record promoter =
  prom_id :: nat
  prom_userId :: nat
  prom_status :: promoter_status
  prom_referralCode :: string
  totalReferrals :: int
  totalRevenue :: int

record referral =
  ref_id :: nat
  promoterId :: nat
  participantEmail :: string
  referralCode :: string
  ref_tier :: tier
  commission :: int
  isConverted :: bool
  convertedAt :: "nat option"
  ref_paymentId :: "nat option"

record payment =
  pay_id :: nat
  pay_userId :: nat
  pay_participantId :: nat
  stripeSessionId :: string
  stripePaymentIntentId :: string
  amount :: int
  currency :: string
  pay_tier :: tier
  pay_status :: payment_status
  failureReason :: "string option"
  pay_referralCode :: "string option"

record auditLog =
  log_id :: nat
  log_userId :: "nat option"
  action :: string
  entityType :: string
  entityId :: nat
  newValues :: "(string \<times> json) list"
  ipAddress :: "string option"
  userAgent :: "string option"

text \<open>What the payment provider holds: the metadata are echoed back on completion.\<close>

record metadata =
  md_participantId :: nat
  md_userId :: nat
  md_tier :: tier
  md_referralCode :: string

record checkout_session =
  session_id :: string
  payment_intent :: string
  customer_email :: string
  session_metadata :: "metadata option"

record payment_intent_obj =
  pi_id :: string
  last_payment_error :: "string option"

datatype stripe_event =
  CheckoutSessionCompleted checkout_session
| PaymentIntentSucceeded payment_intent_obj
| PaymentIntentFailed payment_intent_obj
| InvoicePaymentSucceeded string
| OtherEvent string

text \<open>
  The store: the six tables, and the checkout sessions the provider has been asked to
  create (the provider's side of \<open>stripe.checkout.sessions.create\<close>).
\<close>

record state =
  users :: "user list"
  participants :: "participant list"
  promoters :: "promoter list"
  referrals :: "referral list"
  payments :: "payment list"
  auditLogs :: "auditLog list"
  stripeSessions :: "checkout_session list"

datatype error =
  Error string
| AppError string nat
| RecordNotFound string
| TypeError string

section \<open>The Prisma operations the handlers use\<close>

text \<open>
  \<open>findFirst\<close> and \<open>findUnique\<close> are \<^const>\<open>find\<close>: the first row that satisfies the
  \<open>where\<close> clause, or nothing. \<open>update\<close> changes the row the \<open>where\<close> clause selects and
  throws when there is none.
\<close>

fun update_where :: "('a \<Rightarrow> bool) \<Rightarrow> ('a \<Rightarrow> 'a) \<Rightarrow> 'a list \<Rightarrow> 'a list option" where
  "update_where P f [] = None"
| "update_where P f (x # xs) =
     (if P x then Some (f x # xs) else map_option ((#) x) (update_where P f xs))"

definition new_id :: "nat list \<Rightarrow> nat" where
  "new_id ids = Suc (fold max ids 0)"

text \<open>
  \<open>prisma.$transaction(async (tx) => ...)\<close>: the callback runs on the store; when it
  throws, nothing it wrote is kept and the error is thrown on to the caller.
\<close>

definition transaction ::
  "(state \<Rightarrow> error + 'a \<times> state) \<Rightarrow> state \<Rightarrow> (error + 'a) \<times> state" where
  "transaction body s = (case body s of Inl e \<Rightarrow> (Inl e, s) | Inr (x, s') \<Rightarrow> (Inr x, s'))"

definition auditLog_create ::
  "nat option \<Rightarrow> string \<Rightarrow> string \<Rightarrow> nat \<Rightarrow> (string \<times> json) list \<Rightarrow> string option \<Rightarrow> string option
     \<Rightarrow> state \<Rightarrow> state" where
  "auditLog_create uid act ety eid vals ip ua s =
     s\<lparr>auditLogs := auditLogs s @
        [\<lparr>log_id = new_id (map log_id (auditLogs s)), log_userId = uid, action = act,
          entityType = ety, entityId = eid, newValues = vals, ipAddress = ip,
          userAgent = ua\<rparr>]\<rparr>"

fun tier_name :: "tier \<Rightarrow> string" where
  "tier_name FREE = ''FREE''"
| "tier_name PREMIUM = ''PREMIUM''"
| "tier_name VIP = ''VIP''"

section \<open>The webhook (src/webhooks/stripe.ts)\<close>

subsection \<open>handleCheckoutSessionCompleted\<close>

definition payment_completed :: "checkout_session \<Rightarrow> payment \<Rightarrow> payment" where
  "payment_completed session p =
     p\<lparr>pay_status := COMPLETED, stripePaymentIntentId := payment_intent session\<rparr>"

definition participant_activated :: "metadata \<Rightarrow> participant \<Rightarrow> participant" where
  "participant_activated md q = q\<lparr>part_status := ACTIVE, part_tier := md_tier md\<rparr>"

definition referral_converted :: "nat \<Rightarrow> payment \<Rightarrow> referral \<Rightarrow> referral" where
  "referral_converted now pay r =
     r\<lparr>isConverted := True, convertedAt := Some now, ref_paymentId := Some (pay_id pay)\<rparr>"

definition promoter_credited :: "referral \<Rightarrow> promoter \<Rightarrow> promoter" where
  "promoter_credited r p =
     p\<lparr>totalReferrals := totalReferrals p + 1, totalRevenue := totalRevenue p + commission r\<rparr>"

definition referral_open :: "checkout_session \<Rightarrow> metadata \<Rightarrow> referral \<Rightarrow> bool" where
  "referral_open session md r \<longleftrightarrow>
     participantEmail r = customer_email session \<and> referralCode r = md_referralCode md
     \<and> \<not> isConverted r"

text \<open>Lines 94 to 124: the referral branch, run inside the transaction.\<close>

definition process_referral ::
  "nat \<Rightarrow> checkout_session \<Rightarrow> metadata \<Rightarrow> payment \<Rightarrow> state \<Rightarrow> error + state" where
  "process_referral now session md pay tx =
     (if md_referralCode md \<noteq> [] then
        (case find (referral_open session md) (referrals tx) of
           None \<Rightarrow> Inr tx
         | Some r \<Rightarrow>
             (case update_where (\<lambda>x. ref_id x = ref_id r) (referral_converted now pay)
                     (referrals tx) of
                None \<Rightarrow> Inl (RecordNotFound ''referral'')
              | Some rs \<Rightarrow>
                  (case update_where (\<lambda>p. prom_id p = promoterId r) (promoter_credited r)
                          (promoters tx) of
                     None \<Rightarrow> Inl (RecordNotFound ''promoter'')
                   | Some ps \<Rightarrow> Inr (tx\<lparr>referrals := rs, promoters := ps\<rparr>))))
      else Inr tx)"

text \<open>Lines 65 to 142: the callback of the transaction.\<close>

definition checkout_tx ::
  "nat \<Rightarrow> checkout_session \<Rightarrow> metadata \<Rightarrow> state \<Rightarrow> error + unit \<times> state" where
  "checkout_tx now session md tx =
     (case find (\<lambda>p. stripeSessionId p = session_id session) (payments tx) of
        None \<Rightarrow> Inl (Error (''Payment record not found for session '' @ session_id session))
      | Some pay \<Rightarrow>
          (case update_where (\<lambda>p. pay_id p = pay_id pay) (payment_completed session)
                  (payments tx) of
             None \<Rightarrow> Inl (RecordNotFound ''payment'')
           | Some pays \<Rightarrow>
               (case update_where (\<lambda>q. part_id q = md_participantId md)
                       (participant_activated md) (participants tx) of
                  None \<Rightarrow> Inl (RecordNotFound ''participant'')
                | Some parts \<Rightarrow>
                    (case process_referral now session md pay
                            (tx\<lparr>payments := pays, participants := parts\<rparr>) of
                       Inl e \<Rightarrow> Inl e
                     | Inr tx' \<Rightarrow>
                         Inr ((), auditLog_create (Some (md_userId md)) ''PAYMENT_COMPLETED''
                                ''PAYMENT'' (pay_id pay)
                                [(''status'', JString ''COMPLETED''),
                                 (''tier'', JString (tier_name (md_tier md))),
                                 (''amount'', JNumber (amount pay))]
                                None None tx')))))"

text \<open>
  \<open>now\<close> is the clock reading of \<open>new Date()\<close>. Destructuring \<open>session.metadata!\<close>
  throws when the session carries no metadata, before the transaction starts.
\<close>

definition handleCheckoutSessionCompleted ::
  "nat \<Rightarrow> checkout_session \<Rightarrow> state \<Rightarrow> (error + unit) \<times> state" where
  "handleCheckoutSessionCompleted now session s =
     (case session_metadata session of
        None \<Rightarrow> (Inl (TypeError ''metadata''), s)
      | Some md \<Rightarrow> transaction (checkout_tx now session md) s)"

subsection \<open>handlePaymentIntentSucceeded and handlePaymentIntentFailed\<close>

definition handlePaymentIntentSucceeded ::
  "payment_intent_obj \<Rightarrow> state \<Rightarrow> (error + unit) \<times> state" where
  "handlePaymentIntentSucceeded paymentIntent s = (Inr (), s)"

definition payment_failed :: "payment_intent_obj \<Rightarrow> payment \<Rightarrow> payment" where
  "payment_failed paymentIntent p =
     p\<lparr>pay_status := FAILED,
       failureReason := (case last_payment_error paymentIntent of
                           None \<Rightarrow> failureReason p
                         | Some message \<Rightarrow> Some message)\<rparr>"

text \<open>
  A field whose value is \<open>undefined\<close> is left out, of an update as of a JSON object:
  an update keeps the column, and the object has no such key.
\<close>

definition json_field :: "string \<Rightarrow> string option \<Rightarrow> (string \<times> json) list" where
  "json_field k v = (case v of None \<Rightarrow> [] | Some x \<Rightarrow> [(k, JString x)])"

text \<open>No transaction here: the update and the audit entry are two separate writes.\<close>

definition handlePaymentIntentFailed ::
  "payment_intent_obj \<Rightarrow> state \<Rightarrow> (error + unit) \<times> state" where
  "handlePaymentIntentFailed paymentIntent s =
     (case find (\<lambda>p. stripePaymentIntentId p = pi_id paymentIntent) (payments s) of
        None \<Rightarrow> (Inr (), s)
      | Some pay \<Rightarrow>
          (case update_where (\<lambda>p. pay_id p = pay_id pay) (payment_failed paymentIntent)
                  (payments s) of
             None \<Rightarrow> (Inl (RecordNotFound ''payment''), s)
           | Some pays \<Rightarrow>
               (Inr (),
                auditLog_create (Some (pay_userId pay)) ''PAYMENT_FAILED'' ''PAYMENT''
                  (pay_id pay)
                  ((''status'', JString ''FAILED'')
                   # json_field ''reason'' (last_payment_error paymentIntent))
                  None None (s\<lparr>payments := pays\<rparr>))))"

subsection \<open>router.post('/stripe')\<close>

record webhook_request =
  raw_body :: string
  stripe_signature :: string

datatype reply = Received | WebhookError string | HandlerFailed

record response =
  status :: nat
  reply :: reply

fun dispatch :: "nat \<Rightarrow> stripe_event \<Rightarrow> state \<Rightarrow> (error + unit) \<times> state" where
  "dispatch now (CheckoutSessionCompleted session) s = handleCheckoutSessionCompleted now session s"
| "dispatch now (PaymentIntentSucceeded paymentIntent) s = handlePaymentIntentSucceeded paymentIntent s"
| "dispatch now (PaymentIntentFailed paymentIntent) s = handlePaymentIntentFailed paymentIntent s"
| "dispatch now (InvoicePaymentSucceeded _) s = (Inr (), s)"
| "dispatch now (OtherEvent _) s = (Inr (), s)"

text \<open>
  \<open>constructEvent\<close> is the provider library's signature check
  (\<open>stripe.webhooks.constructEvent(body, sig, secret)\<close>): it either throws with a message
  or returns the parsed event. It is a parameter of the model.
\<close>

definition stripe_webhook ::
  "(string \<Rightarrow> string \<Rightarrow> string \<Rightarrow> string + stripe_event) \<Rightarrow> string \<Rightarrow> nat \<Rightarrow> webhook_request
     \<Rightarrow> state \<Rightarrow> response \<times> state" where
  "stripe_webhook constructEvent endpointSecret now req s =
     (case constructEvent (raw_body req) (stripe_signature req) endpointSecret of
        Inl msg \<Rightarrow> (\<lparr>status = 400, reply = WebhookError (''Webhook Error: '' @ msg)\<rparr>, s)
      | Inr event \<Rightarrow>
          (case dispatch now event s of
             (Inr _, s') \<Rightarrow> (\<lparr>status = 200, reply = Received\<rparr>, s')
           | (Inl e, s') \<Rightarrow> (\<lparr>status = 500, reply = HandlerFailed\<rparr>, s')))"

section \<open>Checkout sessions (src/routes/payments.ts)\<close>

record create_session_body =
  cs_tier :: tier
  cs_participantId :: nat
  successUrl :: string
  cancelUrl :: string

record session_params =
  sp_unit_amount :: int
  sp_success_url :: string
  sp_cancel_url :: string
  sp_customer_email :: string
  sp_metadata :: metadata

record session_created =
  cr_sessionId :: string
  cr_sessionUrl :: string
  cr_paymentId :: nat
  cr_amount :: int
  cr_tier :: tier

text \<open>
  The schema admits the tiers PREMIUM and VIP only, so the price of FREE is never looked
  up; the table gives it the 0 of the specification.
\<close>

fun TIER_PRICES :: "tier \<Rightarrow> int" where
  "TIER_PRICES PREMIUM = 99"
| "TIER_PRICES VIP = 299"
| "TIER_PRICES FREE = 0"

text \<open>\<open>participant.referredBy || ''\<close>: an absent and an empty referrer both give the empty string.\<close>

definition or_empty :: "string option \<Rightarrow> string" where
  "or_empty v = (case v of None \<Rightarrow> [] | Some c \<Rightarrow> c)"

text \<open>
  \<open>POST /api/payments/create-session\<close>. \<open>uid\<close> is the authenticated account
  (\<open>req.user!.id\<close>); \<open>stripeCreate\<close> is the provider call, which throws with a message or
  returns the new session's id and url. A body whose tier is not a paid tier fails the
  schema, and the handler turns that into a 400. The schema's format checks of the two
  urls and of the participant id are taken as passed: the body is one that has them
  right. A session the provider creates has no payment intent yet.
\<close>

definition create_session ::
  "(session_params \<Rightarrow> string + string \<times> string) \<Rightarrow> nat \<Rightarrow> create_session_body
     \<Rightarrow> string option \<Rightarrow> string option \<Rightarrow> state \<Rightarrow> (error + session_created) \<times> state" where
  "create_session stripeCreate uid body ip ua s =
     (if cs_tier body = FREE then (Inl (AppError ''Invalid enum value'' 400), s)
      else
        (case find (\<lambda>q. part_id q = cs_participantId body) (participants s) of
           None \<Rightarrow> (Inl (AppError ''Participant not found'' 404), s)
         | Some part \<Rightarrow>
             if part_userId part \<noteq> uid
             then (Inl (AppError ''Unauthorized access to participant record'' 403), s)
             else
               (case find (\<lambda>p. pay_participantId p = part_id part \<and> pay_tier p = cs_tier body
                                \<and> pay_status p = COMPLETED) (payments s) of
                  Some existingPayment \<Rightarrow>
                    (Inl (AppError ''Payment already completed for this tier'' 400), s)
                | None \<Rightarrow>
                    (case find (\<lambda>u. user_id u = part_userId part) (users s) of
                       None \<Rightarrow> (Inl (TypeError ''user''), s)
                     | Some u \<Rightarrow>
                         (let amt = TIER_PRICES (cs_tier body);
                              md = \<lparr>md_participantId = part_id part, md_userId = part_userId part,
                                    md_tier = cs_tier body,
                                    md_referralCode = or_empty (referredBy part)\<rparr>
                          in case stripeCreate
                                    \<lparr>sp_unit_amount = amt * 100, sp_success_url = successUrl body,
                                     sp_cancel_url = cancelUrl body,
                                     sp_customer_email = user_email u, sp_metadata = md\<rparr> of
                               Inl msg \<Rightarrow> (Inl (Error msg), s)
                             | Inr (sid, url) \<Rightarrow>
                                 (let s1 = s\<lparr>stripeSessions := stripeSessions s @
                                             [\<lparr>session_id = sid, payment_intent = [],
                                               customer_email = user_email u,
                                               session_metadata = Some md\<rparr>]\<rparr>;
                                      pid = new_id (map pay_id (payments s1));
                                      s2 = s1\<lparr>payments := payments s1 @
                                             [\<lparr>pay_id = pid, pay_userId = part_userId part,
                                               pay_participantId = part_id part,
                                               stripeSessionId = sid,
                                               stripePaymentIntentId = ''pending'',
                                               amount = amt, currency = ''usd'',
                                               pay_tier = cs_tier body, pay_status = PENDING,
                                               failureReason = None,
                                               pay_referralCode = referredBy part\<rparr>]\<rparr>
                                  in (Inr \<lparr>cr_sessionId = sid, cr_sessionUrl = url,
                                           cr_paymentId = pid, cr_amount = amt,
                                           cr_tier = cs_tier body\<rparr>,
                                      auditLog_create (Some uid) ''PAYMENT_SESSION_CREATED''
                                        ''PAYMENT'' pid
                                        [(''tier'', JString (tier_name (cs_tier body))),
                                         (''amount'', JNumber amt),
                                         (''sessionId'', JString sid)]
                                        ip ua s2)))))))"

section \<open>Participant registration (src/routes/participants.ts)\<close>

record registration =
  reg_firstName :: string
  reg_lastName :: string
  reg_email :: string
  reg_country :: string
  reg_tier :: tier
  reg_referralCode :: "string option"
  reg_turnstileToken :: string
  reg_acceptTerms :: bool

record registered =
  rg_id :: nat
  rg_email :: string
  rg_tier :: tier
  rg_status :: participant_status
  rg_needsPayment :: bool

text \<open>
  The checks of \<open>participantRegistrationSchema\<close> on the fields kept here, in the order
  of the schema; the result is the message of the first check that fails. The format of
  the e-mail address is not checked here.
\<close>

definition participantRegistrationSchema :: "registration \<Rightarrow> string option" where
  "participantRegistrationSchema d =
     (if reg_firstName d = [] then Some ''First name is required''
      else if reg_lastName d = [] then Some ''Last name is required''
      else if reg_country d = [] then Some ''Country is required''
      else if reg_turnstileToken d = [] then Some ''Bot verification required''
      else if \<not> reg_acceptTerms d then Some ''You must accept the terms and conditions''
      else None)"

text \<open>Lines 52 to 65: the referral code, when one is given, must belong to an approved promoter.\<close>

definition referredByPromoter :: "registration \<Rightarrow> state \<Rightarrow> error + promoter option" where
  "referredByPromoter d s =
     (case reg_referralCode d of
        None \<Rightarrow> Inr None
      | Some c \<Rightarrow>
          if c = [] then Inr None
          else
            (case find (\<lambda>p. prom_referralCode p = c \<and> prom_status p = PROMOTER_APPROVED)
                    (promoters s) of
               None \<Rightarrow> Inl (AppError ''Invalid referral code'' 400)
             | Some p \<Rightarrow> Inr (Some p)))"

text \<open>Lines 104 to 124: the referrer's counter and the referral row, inside the transaction.\<close>

definition register_referral :: "registration \<Rightarrow> promoter option \<Rightarrow> state \<Rightarrow> error + state" where
  "register_referral d rp tx =
     (case rp of
        None \<Rightarrow> Inr tx
      | Some p \<Rightarrow>
          (case update_where (\<lambda>x. prom_id x = prom_id p)
                  (\<lambda>x. x\<lparr>totalReferrals := totalReferrals x + 1\<rparr>) (promoters tx) of
             None \<Rightarrow> Inl (RecordNotFound ''promoter'')
           | Some ps \<Rightarrow>
               Inr (tx\<lparr>promoters := ps,
                       referrals := referrals tx @
                         [\<lparr>ref_id = new_id (map ref_id (referrals tx)), promoterId = prom_id p,
                           participantEmail = reg_email d,
                           referralCode = or_empty (reg_referralCode d),
                           ref_tier = reg_tier d, commission = 0,
                           isConverted = (reg_tier d = FREE), convertedAt = None,
                           ref_paymentId = None\<rparr>]\<rparr>)))"

definition register_tx ::
  "registration \<Rightarrow> promoter option \<Rightarrow> string option \<Rightarrow> string option \<Rightarrow> state
     \<Rightarrow> error + registered \<times> state" where
  "register_tx d rp ip ua tx =
     (let uid = new_id (map user_id (users tx));
          tx1 = tx\<lparr>users := users tx @
                  [\<lparr>user_id = uid, user_email = reg_email d, user_role = PARTICIPANT\<rparr>]\<rparr>;
          pid = new_id (map part_id (participants tx1));
          st = (if reg_tier d = FREE then PARTICIPANT_APPROVED else PARTICIPANT_PENDING);
          tx2 = tx1\<lparr>participants := participants tx1 @
                  [\<lparr>part_id = pid, part_userId = uid, part_tier = reg_tier d, part_status = st,
                    referredBy = reg_referralCode d\<rparr>]\<rparr>
      in case register_referral d rp tx2 of
           Inl e \<Rightarrow> Inl e
         | Inr tx3 \<Rightarrow>
             Inr (\<lparr>rg_id = pid, rg_email = reg_email d, rg_tier = reg_tier d, rg_status = st,
                   rg_needsPayment = (reg_tier d \<noteq> FREE)\<rparr>,
                  auditLog_create (Some uid) ''PARTICIPANT_REGISTER'' ''PARTICIPANT'' pid
                    ([(''tier'', JString (tier_name (reg_tier d))),
                      (''email'', JString (reg_email d))]
                     @ json_field ''referralCode'' (reg_referralCode d))
                    ip ua tx3))"

text \<open>\<open>POST /api/participants/register\<close>, after the bot check of the middleware.\<close>

definition register_participant ::
  "registration \<Rightarrow> string option \<Rightarrow> string option \<Rightarrow> state \<Rightarrow> (error + registered) \<times> state" where
  "register_participant d ip ua s =
     (case participantRegistrationSchema d of
        Some msg \<Rightarrow> (Inl (AppError msg 400), s)
      | None \<Rightarrow>
          (case find (\<lambda>u. user_email u = reg_email d) (users s) of
             Some existingUser \<Rightarrow>
               (Inl (AppError ''Email already registered. Please login instead.'' 409), s)
           | None \<Rightarrow>
               (case referredByPromoter d s of
                  Inl e \<Rightarrow> (Inl e, s)
                | Inr rp \<Rightarrow> transaction (register_tx d rp ip ua) s)))"

section \<open>Referral codes (src/routes/promoters.ts)\<close>

definition toUpperCase :: "char \<Rightarrow> char" where
  "toUpperCase c =
     (let n = (of_char c :: nat) in if 97 \<le> n \<and> n \<le> 122 then char_of (n - 32) else c)"

text \<open>
  \<open>generateReferralCode\<close>. The first argument lists the successive values of
  \<open>Math.random().toString(36).substring(2, 8)\<close>, one for each turn of the loop; the loop
  has not ended when they are used up, which is the result \<open>None\<close>.
\<close>

fun generateReferralCode :: "string list \<Rightarrow> promoter list \<Rightarrow> string option" where
  "generateReferralCode [] ps = None"
| "generateReferralCode (r # rs) ps =
     (let code = ''REF'' @ map toUpperCase r
      in case find (\<lambda>p. prom_referralCode p = code) ps of
           Some existing \<Rightarrow> generateReferralCode rs ps
         | None \<Rightarrow> Some code)"

datatype promoter_type = INFLUENCER | BUSINESS | COMMUNITY

fun promoter_type_name :: "promoter_type \<Rightarrow> string" where
  "promoter_type_name INFLUENCER = ''INFLUENCER''"
| "promoter_type_name BUSINESS = ''BUSINESS''"
| "promoter_type_name COMMUNITY = ''COMMUNITY''"

record application =
  pa_firstName :: string
  pa_lastName :: string
  pa_email :: string
  pa_country :: string
  pa_type :: promoter_type
  pa_experienceDescription :: string
  pa_promotionPlan :: string
  pa_turnstileToken :: string
  pa_acceptTerms :: bool
  pa_agreeCommission :: bool

record applied =
  ap_id :: nat
  ap_email :: string
  ap_status :: promoter_status
  ap_referralCode :: string

definition promoterRegistrationSchema :: "application \<Rightarrow> string option" where
  "promoterRegistrationSchema d =
     (if pa_firstName d = [] then Some ''First name is required''
      else if pa_lastName d = [] then Some ''Last name is required''
      else if pa_country d = [] then Some ''Country is required''
      else if length (pa_experienceDescription d) < 50
        then Some ''Please provide at least 50 characters about your experience''
      else if length (pa_promotionPlan d) < 100
        then Some ''Please provide at least 100 characters about your promotion plan''
      else if pa_turnstileToken d = [] then Some ''Bot verification required''
      else if \<not> pa_acceptTerms d then Some ''You must accept the terms and conditions''
      else if \<not> pa_agreeCommission d then Some ''You must agree to the commission structure''
      else None)"

text \<open>
  Modelled from the spec: the column defaults of the Prisma schema, which is not among
  the sources. A promoter's two counters start at 0.
\<close>

definition promoter_tx ::
  "application \<Rightarrow> string \<Rightarrow> string option \<Rightarrow> string option \<Rightarrow> state \<Rightarrow> error + applied \<times> state" where
  "promoter_tx d code ip ua tx =
     (let uid = new_id (map user_id (users tx));
          tx1 = tx\<lparr>users := users tx @
                  [\<lparr>user_id = uid, user_email = pa_email d, user_role = PROMOTER\<rparr>]\<rparr>;
          pid = new_id (map prom_id (promoters tx1));
          tx2 = tx1\<lparr>promoters := promoters tx1 @
                  [\<lparr>prom_id = pid, prom_userId = uid, prom_status = PROMOTER_PENDING,
                    prom_referralCode = code, totalReferrals = 0, totalRevenue = 0\<rparr>]\<rparr>
      in Inr (\<lparr>ap_id = pid, ap_email = pa_email d, ap_status = PROMOTER_PENDING,
                ap_referralCode = code\<rparr>,
              auditLog_create None ''PROMOTER_APPLICATION'' ''PROMOTER'' pid
                [(''type'', JString (promoter_type_name (pa_type d))),
                 (''email'', JString (pa_email d)),
                 (''referralCode'', JString code),
                 (''status'', JString ''PENDING'')]
                ip ua tx2))"

text \<open>
  \<open>POST /api/promoters/register\<close>. The code is generated before the transaction starts.
  The result is \<open>None\<close> when the generator has not returned.
\<close>

definition register_promoter ::
  "string list \<Rightarrow> application \<Rightarrow> string option \<Rightarrow> string option \<Rightarrow> state
     \<Rightarrow> ((error + applied) \<times> state) option" where
  "register_promoter draws d ip ua s =
     (case promoterRegistrationSchema d of
        Some msg \<Rightarrow> Some (Inl (AppError msg 400), s)
      | None \<Rightarrow>
          (case find (\<lambda>u. user_email u = pa_email d) (users s) of
             Some existingUser \<Rightarrow>
               Some (Inl (AppError ''Email already registered. Please login instead.'' 409), s)
           | None \<Rightarrow>
               (case generateReferralCode draws (promoters s) of
                  None \<Rightarrow> None
                | Some code \<Rightarrow> Some (transaction (promoter_tx d code ip ua) s))))"

section \<open>Runs of operations\<close>

text \<open>
  The operations that write the store, as one datatype, to speak about what a sequence of
  requests and events does. \<open>CreateSession\<close> carries the provider's reply to the call;
  \<open>Webhook\<close> carries an event whose signature has been verified. A step has no result
  when the handler does not return (the code generator of a promoter registration).
\<close>

datatype operation =
  RegisterParticipant registration "string option" "string option"
| RegisterPromoter "string list" application "string option" "string option"
| CreateSession "string + string \<times> string" nat create_session_body "string option" "string option"
| Webhook nat stripe_event

fun step :: "operation \<Rightarrow> state \<Rightarrow> state option" where
  "step (RegisterParticipant d ip ua) s = Some (snd (register_participant d ip ua s))"
| "step (RegisterPromoter draws d ip ua) s = map_option snd (register_promoter draws d ip ua s)"
| "step (CreateSession provided uid body ip ua) s =
     Some (snd (create_session (\<lambda>params. provided) uid body ip ua s))"
| "step (Webhook now ev) s = Some (snd (dispatch now ev s))"

fun run :: "operation list \<Rightarrow> state \<Rightarrow> state option" where
  "run [] s = Some s"
| "run (a # as) s = (case step a s of None \<Rightarrow> None | Some s' \<Rightarrow> run as s')"

text \<open>The two counters of the promoter with id \<open>p\<close> (0 when there is no such promoter).\<close>

definition counters :: "nat \<Rightarrow> state \<Rightarrow> int \<times> int" where
  "counters p s =
     (case find (\<lambda>x. prom_id x = p) (promoters s) of
        None \<Rightarrow> (0, 0)
      | Some x \<Rightarrow> (totalReferrals x, totalRevenue x))"

text \<open>
  The promoter a registration is attributed to: the one its referral code names, when the
  registration succeeds. The referral a checkout-completed event converts: the unconverted
  referral its transaction finds, when the transaction commits.
\<close>

definition registration_credit ::
  "registration \<Rightarrow> string option \<Rightarrow> string option \<Rightarrow> state \<Rightarrow> nat option" where
  "registration_credit d ip ua s =
     (case fst (register_participant d ip ua s) of
        Inl e \<Rightarrow> None
      | Inr res \<Rightarrow>
          (case referredByPromoter d s of
             Inr (Some q) \<Rightarrow> Some (prom_id q)
           | Inr None \<Rightarrow> None
           | Inl e \<Rightarrow> None))"

definition conversion :: "nat \<Rightarrow> checkout_session \<Rightarrow> state \<Rightarrow> referral option" where
  "conversion now session s =
     (case fst (handleCheckoutSessionCompleted now session s) of
        Inl e \<Rightarrow> None
      | Inr u \<Rightarrow>
          (case session_metadata session of
             None \<Rightarrow> None
           | Some md \<Rightarrow>
               if md_referralCode md = [] then None
               else find (referral_open session md) (referrals s)))"

fun op_registrations :: "nat \<Rightarrow> operation \<Rightarrow> state \<Rightarrow> nat" where
  "op_registrations p (RegisterParticipant d ip ua) s =
     (if registration_credit d ip ua s = Some p then 1 else 0)"
| "op_registrations p (RegisterPromoter draws d ip ua) s = 0"
| "op_registrations p (CreateSession provided uid body ip ua) s = 0"
| "op_registrations p (Webhook now ev) s = 0"

fun op_conversions :: "nat \<Rightarrow> operation \<Rightarrow> state \<Rightarrow> referral list" where
  "op_conversions p (Webhook now (CheckoutSessionCompleted session)) s =
     (case conversion now session s of
        None \<Rightarrow> []
      | Some r \<Rightarrow> if promoterId r = p then [r] else [])"
| "op_conversions p (Webhook now (PaymentIntentSucceeded paymentIntent)) s = []"
| "op_conversions p (Webhook now (PaymentIntentFailed paymentIntent)) s = []"
| "op_conversions p (Webhook now (InvoicePaymentSucceeded i)) s = []"
| "op_conversions p (Webhook now (OtherEvent k)) s = []"
| "op_conversions p (RegisterParticipant d ip ua) s = []"
| "op_conversions p (RegisterPromoter draws d ip ua) s = []"
| "op_conversions p (CreateSession provided uid body ip ua) s = []"

text \<open>
  Over a run: the number of registrations attributed to promoter \<open>p\<close>, and the referrals
  of promoter \<open>p\<close> that were converted, each as it was when its conversion found it.
\<close>

fun registrations_for :: "nat \<Rightarrow> operation list \<Rightarrow> state \<Rightarrow> nat" where
  "registrations_for p [] s = 0"
| "registrations_for p (a # as) s =
     op_registrations p a s
     + (case step a s of None \<Rightarrow> 0 | Some s' \<Rightarrow> registrations_for p as s')"

fun conversions_for :: "nat \<Rightarrow> operation list \<Rightarrow> state \<Rightarrow> referral list" where
  "conversions_for p [] s = []"
| "conversions_for p (a # as) s =
     op_conversions p a s
     @ (case step a s of None \<Rightarrow> [] | Some s' \<Rightarrow> conversions_for p as s')"

text \<open>The store before any request.\<close>

definition empty_store :: state where
  "empty_store = \<lparr>users = [], participants = [], promoters = [], referrals = [],
                   payments = [], auditLogs = [], stripeSessions = []\<rparr>"

section \<open>Predicates of the properties\<close>

text \<open>The status a webhook event writes, and what one event may do to one payment row.\<close>

fun status_written :: "stripe_event \<Rightarrow> payment_status option" where
  "status_written (CheckoutSessionCompleted session) = Some COMPLETED"
| "status_written (PaymentIntentFailed paymentIntent) = Some FAILED"
| "status_written (PaymentIntentSucceeded paymentIntent) = None"
| "status_written (InvoicePaymentSucceeded i) = None"
| "status_written (OtherEvent k) = None"

definition status_step :: "stripe_event \<Rightarrow> payment \<Rightarrow> payment \<Rightarrow> bool" where
  "status_step ev p p' \<longleftrightarrow>
     pay_id p' = pay_id p
     \<and> (pay_status p' = pay_status p \<or> status_written ev = Some (pay_status p'))"

text \<open>
  What the operations keep true of the referrals: their ids are distinct, no two belong to
  the same e-mail address, and each belongs to the address of a user. Registration
  refuses an address that a user already has, and nothing modelled here removes a user.
\<close>

definition referrals_ok :: "state \<Rightarrow> bool" where
  "referrals_ok s \<longleftrightarrow>
     distinct (map ref_id (referrals s))
     \<and> distinct (map participantEmail (referrals s))
     \<and> list_all (\<lambda>r. participantEmail r \<in> set (map user_email (users s))) (referrals s)"

section \<open>Example data\<close>

text \<open>
  A small store and one request of each kind, used to run the handlers on concrete
  inputs: an approved promoter, a participant who registers with the promoter's code,
  and the provider's events for that participant's checkout.
\<close>

definition example_verify :: "string \<Rightarrow> string \<Rightarrow> string \<Rightarrow> string + stripe_event" where
  "example_verify body sg secret =
     (if sg = ''t=1,v1=good'' then Inr (PaymentIntentFailed \<lparr>pi_id = ''pi_404'', last_payment_error = Some ''card_declined''\<rparr>)
      else Inl ''No signatures found matching the expected signature for payload'')"

definition example_store :: state where
  "example_store =
     \<lparr>users = [\<lparr>user_id = 1, user_email = ''promo@example.com'', user_role = PROMOTER\<rparr>],
      participants = [],
      promoters = [\<lparr>prom_id = 1, prom_userId = 1, prom_status = PROMOTER_APPROVED,
                    prom_referralCode = ''REFABC123'', totalReferrals = 0, totalRevenue = 0\<rparr>],
      referrals = [], payments = [], auditLogs = [], stripeSessions = []\<rparr>"

definition example_registration :: registration where
  "example_registration =
     \<lparr>reg_firstName = ''Alice'', reg_lastName = ''Doe'', reg_email = ''alice@example.com'',
      reg_country = ''NL'', reg_tier = PREMIUM, reg_referralCode = Some ''REFABC123'',
      reg_turnstileToken = ''tok'', reg_acceptTerms = True\<rparr>"

definition example_provider :: "session_params \<Rightarrow> string + string \<times> string" where
  "example_provider ps = Inr (''cs_test_1'', ''https://checkout.example/cs_test_1'')"

definition example_body :: create_session_body where
  "example_body = \<lparr>cs_tier = PREMIUM, cs_participantId = 1,
      successUrl = ''https://site.example/ok'', cancelUrl = ''https://site.example/no''\<rparr>"

definition example_session :: checkout_session where
  "example_session = \<lparr>session_id = ''cs_test_1'', payment_intent = ''pi_1'',
      customer_email = ''alice@example.com'',
      session_metadata = Some \<lparr>md_participantId = 1, md_userId = 2, md_tier = PREMIUM,
                               md_referralCode = ''REFABC123''\<rparr>\<rparr>"

definition example_intent :: payment_intent_obj where
  "example_intent = \<lparr>pi_id = ''pi_1'', last_payment_error = Some ''card_declined''\<rparr>"


definition example_registered :: state where
  "example_registered =
     \<lparr>users = [\<lparr>user_id = 1, user_email = ''promo@example.com'', user_role = PROMOTER\<rparr>,
               \<lparr>user_id = 2, user_email = ''alice@example.com'', user_role = PARTICIPANT\<rparr>],
      participants = [\<lparr>part_id = 1, part_userId = 2, part_tier = PREMIUM,
                       part_status = PARTICIPANT_PENDING, referredBy = Some ''REFABC123''\<rparr>],
      promoters = [\<lparr>prom_id = 1, prom_userId = 1, prom_status = PROMOTER_APPROVED,
                    prom_referralCode = ''REFABC123'', totalReferrals = 1, totalRevenue = 0\<rparr>],
      referrals = [\<lparr>ref_id = 1, promoterId = 1, participantEmail = ''alice@example.com'',
                    referralCode = ''REFABC123'', ref_tier = PREMIUM, commission = 0,
                    isConverted = False, convertedAt = None, ref_paymentId = None\<rparr>],
      payments = [],
      auditLogs = [\<lparr>log_id = 1, log_userId = Some 2, action = ''PARTICIPANT_REGISTER'',
                    entityType = ''PARTICIPANT'', entityId = 1,
                    newValues = [(''tier'', JString ''PREMIUM''),
                                 (''email'', JString ''alice@example.com''),
                                 (''referralCode'', JString ''REFABC123'')],
                    ipAddress = None, userAgent = None\<rparr>],
      stripeSessions = []\<rparr>"

definition example_pending :: state where
  "example_pending =
     example_registered
     \<lparr>payments := [\<lparr>pay_id = 1, pay_userId = 2, pay_participantId = 1,
                      stripeSessionId = ''cs_test_1'', stripePaymentIntentId = ''pending'',
                      amount = 99, currency = ''usd'', pay_tier = PREMIUM,
                      pay_status = PENDING, failureReason = None,
                      pay_referralCode = Some ''REFABC123''\<rparr>],
      auditLogs := auditLogs example_registered @
                   [\<lparr>log_id = 2, log_userId = Some 2, action = ''PAYMENT_SESSION_CREATED'',
                     entityType = ''PAYMENT'', entityId = 1,
                     newValues = [(''tier'', JString ''PREMIUM''), (''amount'', JNumber 99),
                                  (''sessionId'', JString ''cs_test_1'')],
                     ipAddress = None, userAgent = None\<rparr>],
      stripeSessions := [\<lparr>session_id = ''cs_test_1'', payment_intent = [],
                           customer_email = ''alice@example.com'',
                           session_metadata =
                             Some \<lparr>md_participantId = 1, md_userId = 2, md_tier = PREMIUM,
                                   md_referralCode = ''REFABC123''\<rparr>\<rparr>]\<rparr>"

definition example_completed :: state where
  "example_completed =
     example_pending
     \<lparr>participants := [\<lparr>part_id = 1, part_userId = 2, part_tier = PREMIUM,
                          part_status = ACTIVE, referredBy = Some ''REFABC123''\<rparr>],
      promoters := [\<lparr>prom_id = 1, prom_userId = 1, prom_status = PROMOTER_APPROVED,
                       prom_referralCode = ''REFABC123'', totalReferrals = 2,
                       totalRevenue = 0\<rparr>],
      referrals := [\<lparr>ref_id = 1, promoterId = 1, participantEmail = ''alice@example.com'',
                       referralCode = ''REFABC123'', ref_tier = PREMIUM, commission = 0,
                       isConverted = True, convertedAt = Some 5, ref_paymentId = Some 1\<rparr>],
      payments := [\<lparr>pay_id = 1, pay_userId = 2, pay_participantId = 1,
                      stripeSessionId = ''cs_test_1'', stripePaymentIntentId = ''pi_1'',
                      amount = 99, currency = ''usd'', pay_tier = PREMIUM,
                      pay_status = COMPLETED, failureReason = None,
                      pay_referralCode = Some ''REFABC123''\<rparr>],
      auditLogs := auditLogs example_pending @
                   [\<lparr>log_id = 3, log_userId = Some 2, action = ''PAYMENT_COMPLETED'',
                     entityType = ''PAYMENT'', entityId = 1,
                     newValues = [(''status'', JString ''COMPLETED''),
                                  (''tier'', JString ''PREMIUM''), (''amount'', JNumber 99)],
                     ipAddress = None, userAgent = None\<rparr>]\<rparr>"

definition example_unreferred :: state where
  "example_unreferred =
     example_registered
     \<lparr>users := users example_registered @
                [\<lparr>user_id = 3, user_email = ''bob@example.com'', user_role = PARTICIPANT\<rparr>],
      participants := participants example_registered @
                [\<lparr>part_id = 2, part_userId = 3, part_tier = VIP,
                  part_status = PARTICIPANT_PENDING, referredBy = None\<rparr>]\<rparr>"

definition example_body_vip :: create_session_body where
  "example_body_vip = \<lparr>cs_tier = VIP, cs_participantId = 2,
      successUrl = ''https://site.example/ok'', cancelUrl = ''https://site.example/no''\<rparr>"

definition example_session_vip :: checkout_session where
  "example_session_vip = \<lparr>session_id = ''cs_test_1'', payment_intent = ''pi_2'',
      customer_email = ''bob@example.com'',
      session_metadata = Some \<lparr>md_participantId = 2, md_userId = 3, md_tier = VIP,
                               md_referralCode = []\<rparr>\<rparr>"

definition example_application :: application where
  "example_application =
     \<lparr>pa_firstName = ''Carol'', pa_lastName = ''Roe'', pa_email = ''carol@example.com'',
      pa_country = ''DE'', pa_type = INFLUENCER,
      pa_experienceDescription = replicate 50 CHR ''x'',
      pa_promotionPlan = replicate 100 CHR ''y'',
      pa_turnstileToken = ''tok'', pa_acceptTerms = True, pa_agreeCommission = True\<rparr>"

definition example_session_stray :: checkout_session where
  "example_session_stray = \<lparr>session_id = ''cs_test_1'', payment_intent = ''pi_1'',
      customer_email = ''alice@example.com'',
      session_metadata = Some \<lparr>md_participantId = 7, md_userId = 2, md_tier = PREMIUM,
                               md_referralCode = ''REFABC123''\<rparr>\<rparr>"

definition example_registration_free :: registration where
  "example_registration_free =
     \<lparr>reg_firstName = ''Alice'', reg_lastName = ''Doe'', reg_email = ''alice@example.com'',
      reg_country = ''NL'', reg_tier = FREE, reg_referralCode = Some ''REFABC123'',
      reg_turnstileToken = ''tok'', reg_acceptTerms = True\<rparr>"

definition example_commissioned :: state where
  "example_commissioned =
     example_pending
     \<lparr>referrals := [\<lparr>ref_id = 1, promoterId = 1, participantEmail = ''alice@example.com'',
                       referralCode = ''REFABC123'', ref_tier = PREMIUM, commission = 10,
                       isConverted = False, convertedAt = None, ref_paymentId = None\<rparr>]\<rparr>"

definition example_ops :: "operation list" where
  "example_ops =
     [RegisterParticipant
        \<lparr>reg_firstName = ''Bob'', reg_lastName = ''Poe'', reg_email = ''bob@example.com'',
         reg_country = ''BE'', reg_tier = VIP, reg_referralCode = Some ''REFABC123'',
         reg_turnstileToken = ''tok'', reg_acceptTerms = True\<rparr> None None,
      Webhook 5 (CheckoutSessionCompleted example_session),
      Webhook 6 (PaymentIntentSucceeded \<lparr>pi_id = ''pi_1'', last_payment_error = None\<rparr>),
      Webhook 7 (CheckoutSessionCompleted example_session)]"

definition example_two_payments :: state where
  "example_two_payments =
     example_completed
     \<lparr>users := users example_completed @
                [\<lparr>user_id = 3, user_email = ''bob@example.com'', user_role = PARTICIPANT\<rparr>],
      participants := participants example_completed @
                [\<lparr>part_id = 2, part_userId = 3, part_tier = VIP,
                  part_status = PARTICIPANT_PENDING, referredBy = None\<rparr>],
      payments := payments example_completed @
                [\<lparr>pay_id = 2, pay_userId = 3, pay_participantId = 2,
                  stripeSessionId = ''cs_test_2'', stripePaymentIntentId = ''pending'',
                  amount = 299, currency = ''usd'', pay_tier = VIP, pay_status = PENDING,
                  failureReason = None, pay_referralCode = None\<rparr>]\<rparr>"

definition example_two_referrals :: state where
  "example_two_referrals =
     example_pending
     \<lparr>users := users example_pending @
                [\<lparr>user_id = 3, user_email = ''bob@example.com'', user_role = PARTICIPANT\<rparr>,
                 \<lparr>user_id = 4, user_email = ''promo2@example.com'', user_role = PROMOTER\<rparr>],
      participants := participants example_pending @
                [\<lparr>part_id = 2, part_userId = 3, part_tier = VIP,
                  part_status = PARTICIPANT_PENDING, referredBy = Some ''REFXYZ789''\<rparr>],
      promoters := [\<lparr>prom_id = 1, prom_userId = 1, prom_status = PROMOTER_APPROVED,
                     prom_referralCode = ''REFABC123'', totalReferrals = 2,
                     totalRevenue = 0\<rparr>,
                    \<lparr>prom_id = 2, prom_userId = 4, prom_status = PROMOTER_APPROVED,
                     prom_referralCode = ''REFXYZ789'', totalReferrals = 4,
                     totalRevenue = 50\<rparr>],
      referrals := [\<lparr>ref_id = 1, promoterId = 1, participantEmail = ''alice@example.com'',
                     referralCode = ''REFABC123'', ref_tier = PREMIUM, commission = 10,
                     isConverted = False, convertedAt = None, ref_paymentId = None\<rparr>,
                    \<lparr>ref_id = 2, promoterId = 2, participantEmail = ''bob@example.com'',
                     referralCode = ''REFXYZ789'', ref_tier = VIP, commission = 30,
                     isConverted = False, convertedAt = None, ref_paymentId = None\<rparr>]\<rparr>"

definition example_two_converted :: state where
  "example_two_converted =
     example_two_referrals
     \<lparr>participants := [\<lparr>part_id = 1, part_userId = 2, part_tier = PREMIUM,
                          part_status = ACTIVE, referredBy = Some ''REFABC123''\<rparr>,
                        \<lparr>part_id = 2, part_userId = 3, part_tier = VIP,
                          part_status = PARTICIPANT_PENDING, referredBy = Some ''REFXYZ789''\<rparr>],
      promoters := [\<lparr>prom_id = 1, prom_userId = 1, prom_status = PROMOTER_APPROVED,
                     prom_referralCode = ''REFABC123'', totalReferrals = 3,
                     totalRevenue = 10\<rparr>,
                    \<lparr>prom_id = 2, prom_userId = 4, prom_status = PROMOTER_APPROVED,
                     prom_referralCode = ''REFXYZ789'', totalReferrals = 4,
                     totalRevenue = 50\<rparr>],
      referrals := [\<lparr>ref_id = 1, promoterId = 1, participantEmail = ''alice@example.com'',
                     referralCode = ''REFABC123'', ref_tier = PREMIUM, commission = 10,
                     isConverted = True, convertedAt = Some 5, ref_paymentId = Some 1\<rparr>,
                    \<lparr>ref_id = 2, promoterId = 2, participantEmail = ''bob@example.com'',
                     referralCode = ''REFXYZ789'', ref_tier = VIP, commission = 30,
                     isConverted = False, convertedAt = None, ref_paymentId = None\<rparr>],
      payments := [\<lparr>pay_id = 1, pay_userId = 2, pay_participantId = 1,
                      stripeSessionId = ''cs_test_1'', stripePaymentIntentId = ''pi_1'',
                      amount = 99, currency = ''usd'', pay_tier = PREMIUM,
                      pay_status = COMPLETED, failureReason = None,
                      pay_referralCode = Some ''REFABC123''\<rparr>],
      auditLogs := auditLogs example_two_referrals @
                   [\<lparr>log_id = 3, log_userId = Some 2, action = ''PAYMENT_COMPLETED'',
                     entityType = ''PAYMENT'', entityId = 1,
                     newValues = [(''status'', JString ''COMPLETED''),
                                  (''tier'', JString ''PREMIUM''), (''amount'', JNumber 99)],
                     ipAddress = None, userAgent = None\<rparr>]\<rparr>"

section \<open>Auxiliary lemmas\<close>

lemma update_where_map:
  "update_where P f xs = Some ys \<Longrightarrow> (\<And>x. g (f x) = g x) \<Longrightarrow> map g ys = map g xs"
  by (induction xs arbitrary: ys) (auto split: if_splits)

lemma find_Some_update_where:
  "find P xs = Some x \<Longrightarrow> \<exists>ys. update_where P f xs = Some ys"
  by (induction xs) (auto split: if_splits)

lemma update_where_all2:
  "update_where P f xs = Some ys \<Longrightarrow> list_all2 (\<lambda>x y. y = x \<or> (P x \<and> y = f x)) xs ys"
  by (induction xs arbitrary: ys) (auto split: if_splits simp: list_all2_same list.rel_refl)

lemma update_where_idem:
  "update_where P f xs = Some ys \<Longrightarrow> (\<And>x. P x \<Longrightarrow> P (f x) \<and> f (f x) = f x)
     \<Longrightarrow> update_where P f ys = Some ys"
  by (induction xs arbitrary: ys) (auto split: if_splits)

lemma update_where_find_same:
  "update_where P f xs = Some ys \<Longrightarrow> (\<And>x. P x \<Longrightarrow> P (f x))
     \<Longrightarrow> find P ys = map_option f (find P xs)"
  by (induction xs arbitrary: ys) (auto split: if_splits)

lemma update_where_find_other:
  "update_where P f xs = Some ys \<Longrightarrow> (\<And>x. P x \<Longrightarrow> \<not> Q x \<and> \<not> Q (f x))
     \<Longrightarrow> find Q ys = find Q xs"
  by (induction xs arbitrary: ys) (auto split: if_splits)

lemma update_where_find_stable:
  assumes "update_where P f xs = Some ys" and "\<And>x. Q (f x) = Q x" and "find Q xs = Some x"
  shows "find Q ys = Some x \<or> find Q ys = Some (f x)"
  using assms(1,3)
proof (induction xs arbitrary: ys)
  case Nil
  then show ?case by simp
next
  case (Cons a xs)
  show ?case
  proof (cases "P a")
    case Pa: True
    then have ys: "ys = f a # xs" using Cons.prems(1) by simp
    show ?thesis
    proof (cases "Q a")
      case Qa: True
      with Cons.prems(2) have "x = a" by simp
      moreover from Qa assms(2) [of a] have "Q (f a)" by blast
      ultimately show ?thesis using ys by simp
    next
      case nQa: False
      with assms(2) [of a] have "\<not> Q (f a)" by blast
      with nQa ys Cons.prems(2) show ?thesis by simp
    qed
  next
    case nPa: False
    with Cons.prems(1) obtain zs where zs: "update_where P f xs = Some zs" "ys = a # zs"
      by (cases "update_where P f xs") simp_all
    show ?thesis
    proof (cases "Q a")
      case Qa: True
      with Cons.prems(2) zs show ?thesis by simp
    next
      case nQa: False
      with Cons.prems(2) have "find Q xs = Some x" by simp
      from Cons.IH [OF zs(1) this] nQa zs(2) show ?thesis by simp
    qed
  qed
qed

lemma update_where_mem:
  "update_where P f xs = Some ys \<Longrightarrow> \<exists>x\<in>set xs. P x \<and> f x \<in> set ys"
  by (induction xs arbitrary: ys) (auto split: if_splits)

lemma find_SomeD: "find P xs = Some x \<Longrightarrow> x \<in> set xs"
  by (induction xs) (auto split: if_splits)

lemma update_where_closes:
  "find Q xs = Some r \<Longrightarrow> distinct (map k xs) \<Longrightarrow> length (filter Q xs) \<le> 1
     \<Longrightarrow> update_where (\<lambda>x. k x = k r) f xs = Some ys \<Longrightarrow> (\<And>x. \<not> Q (f x))
     \<Longrightarrow> find Q ys = None"
proof (induction xs arbitrary: ys)
  case Nil
  then show ?case by simp
next
  case (Cons x xs)
  show ?case
  proof (cases "Q x")
    case True
    with Cons.prems(1) have rx: "r = x" by simp
    from Cons.prems(3) True have "length (filter Q xs) = 0" by simp
    then have none: "\<forall>y\<in>set xs. \<not> Q y" by (simp add: filter_empty_conv)
    from Cons.prems(4) rx have ys: "ys = f x # xs" by simp
    from none have "find Q xs = None" by (simp add: find_None_iff)
    with ys Cons.prems(5) show ?thesis by simp
  next
    case False
    with Cons.prems(1) have fr: "find Q xs = Some r" by simp
    then have "r \<in> set xs" by (rule find_SomeD)
    with Cons.prems(2) have ne: "k x \<noteq> k r" by auto
    with Cons.prems(4) obtain zs where zs: "update_where (\<lambda>x. k x = k r) f xs = Some zs" "ys = x # zs"
      by (cases "update_where (\<lambda>x. k x = k r) f xs") simp_all
    from Cons.prems(2) have d: "distinct (map k xs)" by simp
    from Cons.prems(3) False have l: "length (filter Q xs) \<le> 1" by simp
    note this = d l
    from Cons.IH [OF fr this zs(1) Cons.prems(5)] False zs(2) show ?thesis by simp
  qed
qed

lemma checkout_tx_Inr:
  assumes "checkout_tx now session md s = Inr (u, s')"
  shows "\<exists>pay pays parts tx'.
           find (\<lambda>p. stripeSessionId p = session_id session) (payments s) = Some pay
         \<and> update_where (\<lambda>p. pay_id p = pay_id pay) (payment_completed session) (payments s) = Some pays
         \<and> update_where (\<lambda>q. part_id q = md_participantId md) (participant_activated md)
              (participants s) = Some parts
         \<and> process_referral now session md pay (s\<lparr>payments := pays, participants := parts\<rparr>) = Inr tx'
         \<and> s' = auditLog_create (Some (md_userId md)) ''PAYMENT_COMPLETED'' ''PAYMENT'' (pay_id pay)
                  [(''status'', JString ''COMPLETED''),
                   (''tier'', JString (tier_name (md_tier md))),
                   (''amount'', JNumber (amount pay))] None None tx'"
  using assms unfolding checkout_tx_def
  by (simp split: option.splits sum.splits)

lemma process_referral_Inr:
  assumes "process_referral now session md pay tx = Inr tx'"
  shows "(tx' = tx \<and> (md_referralCode md = []
             \<or> find (referral_open session md) (referrals tx) = None))
       \<or> (md_referralCode md \<noteq> [] \<and>
           (\<exists>r rs ps. find (referral_open session md) (referrals tx) = Some r
              \<and> update_where (\<lambda>x. ref_id x = ref_id r) (referral_converted now pay) (referrals tx) = Some rs
              \<and> update_where (\<lambda>p. prom_id p = promoterId r) (promoter_credited r) (promoters tx) = Some ps
              \<and> tx' = tx\<lparr>referrals := rs, promoters := ps\<rparr>))"
  using assms unfolding process_referral_def
  by (simp split: option.splits if_splits)

lemma process_referral_frame:
  assumes "process_referral now session md pay tx = Inr tx'"
  shows "users tx' = users tx \<and> participants tx' = participants tx \<and> payments tx' = payments tx
       \<and> auditLogs tx' = auditLogs tx \<and> stripeSessions tx' = stripeSessions tx"
  using process_referral_Inr [OF assms] by (elim disjE conjE exE) simp_all

lemma handle_checkout_Inl:
  "handleCheckoutSessionCompleted now session s = (Inl e, s') \<Longrightarrow> s' = s"
  unfolding handleCheckoutSessionCompleted_def transaction_def
  by (simp split: option.splits sum.splits prod.splits)

lemma handle_checkout_Inr:
  "handleCheckoutSessionCompleted now session s = (Inr u, s') \<Longrightarrow>
     \<exists>md. session_metadata session = Some md \<and> checkout_tx now session md s = Inr ((), s')"
  unfolding handleCheckoutSessionCompleted_def transaction_def
  by (simp split: option.splits sum.splits prod.splits)

lemma find_Some_holds: "find P xs = Some x \<Longrightarrow> P x"
  by (induction xs) (auto split: if_splits)

lemma create_session_Inr:
  assumes "create_session stripeCreate uid body ip ua s = (Inr created, s')"
  shows "\<exists>part u sid url.
           find (\<lambda>q. part_id q = cs_participantId body) (participants s) = Some part
         \<and> find (\<lambda>u. user_id u = part_userId part) (users s) = Some u
         \<and> stripeCreate
              \<lparr>sp_unit_amount = TIER_PRICES (cs_tier body) * 100, sp_success_url = successUrl body,
               sp_cancel_url = cancelUrl body, sp_customer_email = user_email u,
               sp_metadata = \<lparr>md_participantId = part_id part, md_userId = part_userId part,
                              md_tier = cs_tier body,
                              md_referralCode = or_empty (referredBy part)\<rparr>\<rparr> = Inr (sid, url)
         \<and> cr_sessionId created = sid
         \<and> stripeSessions s' = stripeSessions s @
               [\<lparr>session_id = sid, payment_intent = [], customer_email = user_email u,
                 session_metadata = Some \<lparr>md_participantId = part_id part,
                     md_userId = part_userId part, md_tier = cs_tier body,
                     md_referralCode = or_empty (referredBy part)\<rparr>\<rparr>]
         \<and> users s' = users s \<and> participants s' = participants s
         \<and> promoters s' = promoters s \<and> referrals s' = referrals s"
  using assms unfolding create_session_def Let_def auditLog_create_def
  by (clarsimp split: if_splits option.splits sum.splits prod.splits)

lemma process_referral_empty:
  "md_referralCode md = [] \<Longrightarrow> process_referral now session md pay tx = Inr tx"
  by (simp add: process_referral_def)

lemma checkout_tx_no_code_frame:
  assumes "md_referralCode md = []" and "checkout_tx now session md s = Inr (u, s')"
  shows "referrals s' = referrals s \<and> promoters s' = promoters s \<and> users s' = users s
       \<and> stripeSessions s' = stripeSessions s"
proof -
  from checkout_tx_Inr [OF assms(2)] obtain pay pays parts tx' where
    pr: "process_referral now session md pay (s\<lparr>payments := pays, participants := parts\<rparr>) = Inr tx'"
    and s': "s' = auditLog_create (Some (md_userId md)) ''PAYMENT_COMPLETED'' ''PAYMENT'' (pay_id pay)
                  [(''status'', JString ''COMPLETED''),
                   (''tier'', JString (tier_name (md_tier md))),
                   (''amount'', JNumber (amount pay))] None None tx'"
    by blast
  from pr assms(1) have "tx' = s\<lparr>payments := pays, participants := parts\<rparr>"
    by (simp add: process_referral_empty)
  with s' show ?thesis by (simp add: auditLog_create_def)
qed

lemma handle_checkout_no_code_frame:
  assumes "session_metadata session = Some md" and "md_referralCode md = []"
  shows "referrals (snd (handleCheckoutSessionCompleted now session s)) = referrals s
       \<and> promoters (snd (handleCheckoutSessionCompleted now session s)) = promoters s
       \<and> users (snd (handleCheckoutSessionCompleted now session s)) = users s
       \<and> stripeSessions (snd (handleCheckoutSessionCompleted now session s)) = stripeSessions s"
proof (cases "checkout_tx now session md s")
  case (Inl e)
  with assms(1) show ?thesis
    by (simp add: handleCheckoutSessionCompleted_def transaction_def)
next
  case (Inr us)
  obtain u s' where us: "us = (u, s')" by (cases us)
  with Inr assms(1) have "snd (handleCheckoutSessionCompleted now session s) = s'"
    by (simp add: handleCheckoutSessionCompleted_def transaction_def)
  with checkout_tx_no_code_frame [OF assms(2) Inr [unfolded us]] show ?thesis by simp
qed

lemma example_toUpperCase:
  "toUpperCase CHR ''a'' = CHR ''A''" "toUpperCase CHR ''b'' = CHR ''B''"
  "toUpperCase CHR ''c'' = CHR ''C''" "toUpperCase CHR ''1'' = CHR ''1''"
  "toUpperCase CHR ''2'' = CHR ''2''" "toUpperCase CHR ''3'' = CHR ''3''"
  "toUpperCase CHR ''k'' = CHR ''K''" "toUpperCase CHR ''x'' = CHR ''X''"
  "toUpperCase CHR ''9'' = CHR ''9''" "toUpperCase CHR ''q'' = CHR ''Q''"
  by code_simp+

lemma find_witness_not_None: "x \<in> set xs \<Longrightarrow> P x \<Longrightarrow> find P xs \<noteq> None"
  by (auto simp: find_None_iff)

lemma generateReferralCode_Some:
  "generateReferralCode draws ps = Some code \<Longrightarrow>
     list_all (\<lambda>p. prom_referralCode p \<noteq> code) ps
     \<and> (\<exists>r\<in>set draws. code = ''REF'' @ map toUpperCase r)"
proof (induction draws)
  case Nil
  then show ?case by simp
next
  case (Cons r rs)
  show ?case
  proof (cases "find (\<lambda>p. prom_referralCode p = ''REF'' @ map toUpperCase r) ps")
    case None
    with Cons.prems have c: "code = ''REF'' @ map toUpperCase r" by (simp add: Let_def)
    from None have "\<forall>p\<in>set ps. prom_referralCode p \<noteq> ''REF'' @ map toUpperCase r"
      by (auto simp: find_None_iff)
    with c show ?thesis by (simp add: list_all_iff)
  next
    case (Some existing)
    with Cons.prems have "generateReferralCode rs ps = Some code" by (simp add: Let_def)
    from Cons.IH [OF this] show ?thesis by auto
  qed
qed

lemma generateReferralCode_returns:
  "\<exists>r\<in>set draws. list_all (\<lambda>p. prom_referralCode p \<noteq> ''REF'' @ map toUpperCase r) ps
     \<Longrightarrow> \<exists>code. generateReferralCode draws ps = Some code"
proof (induction draws)
  case Nil
  then show ?case by simp
next
  case (Cons r rs)
  show ?case
  proof (cases "find (\<lambda>p. prom_referralCode p = ''REF'' @ map toUpperCase r) ps")
    case None
    then show ?thesis by (simp add: Let_def)
  next
    case (Some existing)
    then have "\<not> list_all (\<lambda>p. prom_referralCode p \<noteq> ''REF'' @ map toUpperCase r) ps"
      by (auto simp: list_all_iff find_Some_iff)
    with Cons.prems have "\<exists>r\<in>set rs. list_all (\<lambda>p. prom_referralCode p \<noteq> ''REF'' @ map toUpperCase r) ps"
      by auto
    from Cons.IH [OF this] Some show ?thesis by (simp add: Let_def)
  qed
qed

lemma register_promoter_Inr:
  assumes "register_promoter draws d ip ua s = Some (Inr a, s')"
  shows "\<exists>code. generateReferralCode draws (promoters s) = Some code
           \<and> ap_referralCode a = code
           \<and> promoters s' = promoters s @
                [\<lparr>prom_id = new_id (map prom_id (promoters s)),
                  prom_userId = new_id (map user_id (users s)),
                  prom_status = PROMOTER_PENDING, prom_referralCode = code,
                  totalReferrals = 0, totalRevenue = 0\<rparr>]"
  using assms unfolding register_promoter_def transaction_def promoter_tx_def Let_def
    auditLog_create_def
  by (clarsimp split: option.splits sum.splits prod.splits)

lemma example_register_step:
  "register_participant example_registration None None example_store
     = (Inr \<lparr>rg_id = 1, rg_email = ''alice@example.com'', rg_tier = PREMIUM,
              rg_status = PARTICIPANT_PENDING, rg_needsPayment = True\<rparr>, example_registered)"
  by (simp add: register_participant_def participantRegistrationSchema_def
        example_registration_def example_store_def referredByPromoter_def transaction_def
        register_tx_def register_referral_def new_id_def auditLog_create_def json_field_def
        or_empty_def example_registered_def Let_def)

lemma example_create_step:
  "create_session example_provider 2 example_body None None example_registered
     = (Inr \<lparr>cr_sessionId = ''cs_test_1'',
              cr_sessionUrl = ''https://checkout.example/cs_test_1'',
              cr_paymentId = 1, cr_amount = 99, cr_tier = PREMIUM\<rparr>, example_pending)"
  by (simp add: create_session_def example_provider_def example_body_def
        example_registered_def example_pending_def new_id_def auditLog_create_def
        or_empty_def Let_def)

lemma example_complete_step:
  "handleCheckoutSessionCompleted 5 example_session example_pending = (Inr (), example_completed)"
  by (simp add: handleCheckoutSessionCompleted_def transaction_def checkout_tx_def
        process_referral_def referral_open_def payment_completed_def participant_activated_def
        referral_converted_def promoter_credited_def auditLog_create_def new_id_def
        example_session_def example_pending_def example_registered_def example_completed_def)

lemma example_stray_step:
  "handleCheckoutSessionCompleted 5 example_session_stray example_pending
     = (Inl (RecordNotFound ''participant''), example_pending)"
  by (simp add: handleCheckoutSessionCompleted_def transaction_def checkout_tx_def
        payment_completed_def example_session_stray_def example_pending_def
        example_registered_def)

lemma auditLog_create_logs:
  "auditLogs (auditLog_create uid act ety eid vals ip ua s)
     = auditLogs s @ [\<lparr>log_id = new_id (map log_id (auditLogs s)), log_userId = uid,
                       action = act, entityType = ety, entityId = eid, newValues = vals,
                       ipAddress = ip, userAgent = ua\<rparr>]"
  and auditLog_create_frame:
  "payments (auditLog_create uid act ety eid vals ip ua s) = payments s"
  "participants (auditLog_create uid act ety eid vals ip ua s) = participants s"
  "referrals (auditLog_create uid act ety eid vals ip ua s) = referrals s"
  "promoters (auditLog_create uid act ety eid vals ip ua s) = promoters s"
  "users (auditLog_create uid act ety eid vals ip ua s) = users s"
  "stripeSessions (auditLog_create uid act ety eid vals ip ua s) = stripeSessions s"
  by (simp_all add: auditLog_create_def)

lemma checkout_tx_effects:
  assumes "checkout_tx now session md s = Inr (u, s')"
  shows "\<exists>pay. find (\<lambda>p. stripeSessionId p = session_id session) (payments s) = Some pay
       \<and> (\<exists>p'\<in>set (payments s'). pay_id p' = pay_id pay \<and> pay_status p' = COMPLETED
              \<and> stripePaymentIntentId p' = payment_intent session)
       \<and> (\<exists>q\<in>set (participants s'). part_id q = md_participantId md \<and> part_status q = ACTIVE
              \<and> part_tier q = md_tier md)
       \<and> (\<forall>rf. md_referralCode md \<noteq> [] \<longrightarrow>
              find (referral_open session md) (referrals s) = Some rf \<longrightarrow>
                (\<exists>rf'\<in>set (referrals s'). ref_id rf' = ref_id rf \<and> isConverted rf'
                     \<and> convertedAt rf' = Some now \<and> ref_paymentId rf' = Some (pay_id pay))
              \<and> find (\<lambda>p. prom_id p = promoterId rf) (promoters s) \<noteq> None
              \<and> find (\<lambda>p. prom_id p = promoterId rf) (promoters s')
                   = map_option (promoter_credited rf)
                       (find (\<lambda>p. prom_id p = promoterId rf) (promoters s)))
       \<and> (\<exists>entry. auditLogs s' = auditLogs s @ [entry] \<and> action entry = ''PAYMENT_COMPLETED''
              \<and> entityType entry = ''PAYMENT'' \<and> entityId entry = pay_id pay
              \<and> log_userId entry = Some (md_userId md))"
proof -
  from checkout_tx_Inr [OF assms] obtain pay pays parts tx' where
    f: "find (\<lambda>p. stripeSessionId p = session_id session) (payments s) = Some pay"
    and up: "update_where (\<lambda>p. pay_id p = pay_id pay) (payment_completed session) (payments s) = Some pays"
    and uq: "update_where (\<lambda>q. part_id q = md_participantId md) (participant_activated md)
              (participants s) = Some parts"
    and pr: "process_referral now session md pay (s\<lparr>payments := pays, participants := parts\<rparr>) = Inr tx'"
    and s': "s' = auditLog_create (Some (md_userId md)) ''PAYMENT_COMPLETED'' ''PAYMENT'' (pay_id pay)
                  [(''status'', JString ''COMPLETED''),
                   (''tier'', JString (tier_name (md_tier md))),
                   (''amount'', JNumber (amount pay))] None None tx'"
    by blast
  note fr = process_referral_frame [OF pr]
  from update_where_mem [OF up] obtain x where "x \<in> set (payments s)" "pay_id x = pay_id pay"
    "payment_completed session x \<in> set pays" by blast
  then have c1: "\<exists>p'\<in>set (payments s'). pay_id p' = pay_id pay \<and> pay_status p' = COMPLETED
              \<and> stripePaymentIntentId p' = payment_intent session"
    using fr s' by (intro bexI [of _ "payment_completed session x"])
      (simp_all add: payment_completed_def auditLog_create_frame)
  from update_where_mem [OF uq] obtain y where "y \<in> set (participants s)"
    "part_id y = md_participantId md" "participant_activated md y \<in> set parts" by blast
  then have c2: "\<exists>q\<in>set (participants s'). part_id q = md_participantId md \<and> part_status q = ACTIVE
              \<and> part_tier q = md_tier md"
    using fr s' by (intro bexI [of _ "participant_activated md y"])
      (simp_all add: participant_activated_def auditLog_create_frame)
  have c3: "(\<exists>rf'\<in>set (referrals s'). ref_id rf' = ref_id rf \<and> isConverted rf'
                     \<and> convertedAt rf' = Some now \<and> ref_paymentId rf' = Some (pay_id pay))
              \<and> find (\<lambda>p. prom_id p = promoterId rf) (promoters s) \<noteq> None
              \<and> find (\<lambda>p. prom_id p = promoterId rf) (promoters s')
                   = map_option (promoter_credited rf)
                       (find (\<lambda>p. prom_id p = promoterId rf) (promoters s))"
    if ne: "md_referralCode md \<noteq> []"
      and frf: "find (referral_open session md) (referrals s) = Some rf" for rf
  proof -
    from process_referral_Inr [OF pr] ne frf obtain rs ps where
      ur: "update_where (\<lambda>x. ref_id x = ref_id rf) (referral_converted now pay) (referrals s) = Some rs"
      and upp: "update_where (\<lambda>p. prom_id p = promoterId rf) (promoter_credited rf) (promoters s) = Some ps"
      and tx': "tx' = s\<lparr>payments := pays, participants := parts, referrals := rs, promoters := ps\<rparr>"
      by auto
    from update_where_mem [OF ur] obtain z where "z \<in> set (referrals s)" "ref_id z = ref_id rf"
      "referral_converted now pay z \<in> set rs" by blast
    then have a: "\<exists>rf'\<in>set (referrals s'). ref_id rf' = ref_id rf \<and> isConverted rf'
                     \<and> convertedAt rf' = Some now \<and> ref_paymentId rf' = Some (pay_id pay)"
      using s' tx' by (intro bexI [of _ "referral_converted now pay z"])
        (simp_all add: referral_converted_def auditLog_create_frame)
    from upp have b: "find (\<lambda>p. prom_id p = promoterId rf) (promoters s) \<noteq> None"
      by (auto simp: find_None_iff dest: update_where_mem)
    from update_where_find_same [OF upp] have
      "find (\<lambda>p. prom_id p = promoterId rf) ps
         = map_option (promoter_credited rf) (find (\<lambda>p. prom_id p = promoterId rf) (promoters s))"
      by (simp add: promoter_credited_def)
    with s' tx' have c: "find (\<lambda>p. prom_id p = promoterId rf) (promoters s')
                   = map_option (promoter_credited rf)
                       (find (\<lambda>p. prom_id p = promoterId rf) (promoters s))"
      by (simp add: auditLog_create_frame)
    from a b c show ?thesis by blast
  qed
  from s' fr have c4: "\<exists>entry. auditLogs s' = auditLogs s @ [entry] \<and> action entry = ''PAYMENT_COMPLETED''
              \<and> entityType entry = ''PAYMENT'' \<and> entityId entry = pay_id pay
              \<and> log_userId entry = Some (md_userId md)"
    by (simp add: auditLog_create_logs)
  from f c1 c2 c3 c4 show ?thesis by blast
qed

lemma update_where_Some: "x \<in> set xs \<Longrightarrow> P x \<Longrightarrow> \<exists>ys. update_where P f xs = Some ys"
  by (induction xs) auto

lemma handlePaymentIntentFailed_cases:
  assumes "handlePaymentIntentFailed paymentIntent s = (r, s')"
  shows "s' = s
       \<or> (\<exists>pay pays.
             find (\<lambda>p. stripePaymentIntentId p = pi_id paymentIntent) (payments s) = Some pay
           \<and> update_where (\<lambda>p. pay_id p = pay_id pay) (payment_failed paymentIntent) (payments s)
               = Some pays
           \<and> r = Inr ()
           \<and> s' = auditLog_create (Some (pay_userId pay)) ''PAYMENT_FAILED'' ''PAYMENT'' (pay_id pay)
                    ((''status'', JString ''FAILED'')
                     # json_field ''reason'' (last_payment_error paymentIntent))
                    None None (s\<lparr>payments := pays\<rparr>))"
  using assms unfolding handlePaymentIntentFailed_def
  by (clarsimp split: option.splits)

lemma status_step_refl: "list_all2 (status_step ev) ps ps"
  by (simp add: list_all2_same status_step_def)

lemma checkout_tx_payments:
  assumes "checkout_tx now session md s = Inr (u, s')"
  shows "\<exists>pay. find (\<lambda>p. stripeSessionId p = session_id session) (payments s) = Some pay
           \<and> update_where (\<lambda>p. pay_id p = pay_id pay) (payment_completed session) (payments s)
               = Some (payments s')"
proof -
  from checkout_tx_Inr [OF assms] obtain pay pays parts tx' where
    f: "find (\<lambda>p. stripeSessionId p = session_id session) (payments s) = Some pay"
    and up: "update_where (\<lambda>p. pay_id p = pay_id pay) (payment_completed session) (payments s) = Some pays"
    and pr: "process_referral now session md pay (s\<lparr>payments := pays, participants := parts\<rparr>) = Inr tx'"
    and s': "s' = auditLog_create (Some (md_userId md)) ''PAYMENT_COMPLETED'' ''PAYMENT'' (pay_id pay)
                  [(''status'', JString ''COMPLETED''),
                   (''tier'', JString (tier_name (md_tier md))),
                   (''amount'', JNumber (amount pay))] None None tx'"
    by blast
  from process_referral_frame [OF pr] s' have "payments s' = pays"
    by (simp add: auditLog_create_frame)
  with f up show ?thesis by simp
qed

lemma checkout_status_step:
  assumes "handleCheckoutSessionCompleted now session s = (r, s')"
  shows "list_all2 (status_step (CheckoutSessionCompleted session)) (payments s) (payments s')"
proof (cases r)
  case (Inl e)
  with assms have "s' = s" by (simp add: handle_checkout_Inl)
  then show ?thesis by (simp add: status_step_refl)
next
  case (Inr u)
  with assms handle_checkout_Inr obtain md where "checkout_tx now session md s = Inr ((), s')"
    by blast
  from checkout_tx_payments [OF this] obtain pay :: payment where
    "update_where (\<lambda>p. pay_id p = pay_id pay) (payment_completed session) (payments s)
       = Some (payments s')" by blast
  from update_where_all2 [OF this] show ?thesis
    by (rule list_all2_mono) (auto simp: status_step_def payment_completed_def)
qed

lemma failed_status_step:
  assumes "handlePaymentIntentFailed paymentIntent s = (r, s')"
  shows "list_all2 (status_step (PaymentIntentFailed paymentIntent)) (payments s) (payments s')"
  using handlePaymentIntentFailed_cases [OF assms]
proof (elim disjE exE conjE)
  assume "s' = s"
  then show ?thesis by (simp add: status_step_refl)
next
  fix pay :: payment and pays
  assume up: "update_where (\<lambda>p. pay_id p = pay_id pay) (payment_failed paymentIntent) (payments s)
               = Some pays"
    and s': "s' = auditLog_create (Some (pay_userId pay)) ''PAYMENT_FAILED'' ''PAYMENT'' (pay_id pay)
                    ((''status'', JString ''FAILED'')
                     # json_field ''reason'' (last_payment_error paymentIntent))
                    None None (s\<lparr>payments := pays\<rparr>)"
  from s' have "payments s' = pays" by (simp add: auditLog_create_frame)
  with update_where_all2 [OF up] show ?thesis
    by (auto elim!: list_all2_mono simp: status_step_def payment_failed_def)
qed

lemma failed_overwrites:
  assumes "find (\<lambda>p. stripePaymentIntentId p = pi_id paymentIntent) (payments s) = Some pay"
  shows "\<exists>p'\<in>set (payments (snd (handlePaymentIntentFailed paymentIntent s))).
           pay_id p' = pay_id pay \<and> pay_status p' = FAILED"
proof -
  from assms have "pay \<in> set (payments s)" by (rule find_SomeD)
  from update_where_Some [OF this, of "\<lambda>p. pay_id p = pay_id pay"] obtain pays where up:
    "update_where (\<lambda>p. pay_id p = pay_id pay) (payment_failed paymentIntent) (payments s) = Some pays"
    by auto
  with assms have "payments (snd (handlePaymentIntentFailed paymentIntent s)) = pays"
    by (simp add: handlePaymentIntentFailed_def auditLog_create_frame)
  moreover from update_where_mem [OF up] obtain x where "pay_id x = pay_id pay"
    "payment_failed paymentIntent x \<in> set pays" by blast
  ultimately show ?thesis
    by (intro bexI [of _ "payment_failed paymentIntent x"]) (simp_all add: payment_failed_def)
qed

lemma referral_converted_closed: "\<not> referral_open session md (referral_converted now pay r)"
  by (simp add: referral_open_def referral_converted_def)

lemma process_referral_none:
  "md_referralCode md = [] \<or> find (referral_open session md) (referrals tx) = None
     \<Longrightarrow> process_referral now session md pay tx = Inr tx"
  by (auto simp: process_referral_def)

lemma process_referral_leaves_none:
  assumes pr: "process_referral now session md pay tx = Inr tx'"
    and d: "distinct (map ref_id (referrals tx))"
    and l: "length (filter (referral_open session md) (referrals tx)) \<le> 1"
  shows "md_referralCode md = [] \<or> find (referral_open session md) (referrals tx') = None"
proof (cases "md_referralCode md = [] \<or> find (referral_open session md) (referrals tx) = None")
  case True
  from process_referral_none [OF True] pr have "tx' = tx" by simp
  with True show ?thesis by simp
next
  case False
  then obtain r :: referral where ne: "md_referralCode md \<noteq> []"
    and f: "find (referral_open session md) (referrals tx) = Some r" by auto
  from pr ne f obtain rs where
    u: "update_where (\<lambda>x. ref_id x = ref_id r) (referral_converted now pay) (referrals tx) = Some rs"
    and t: "referrals tx' = rs"
    by (auto simp: process_referral_def split: option.splits)
  from update_where_closes [OF f d l u referral_converted_closed]
  have "find (referral_open session md) rs = None" .
  with t show ?thesis by simp
qed

lemma checkout_tx_again:
  assumes tx: "checkout_tx now session md s = Inr (u, s1)"
    and d: "distinct (map ref_id (referrals s))"
    and l: "length (filter (referral_open session md) (referrals s)) \<le> 1"
  shows "\<exists>entry. checkout_tx now' session md s1
                  = Inr ((), s1\<lparr>auditLogs := auditLogs s1 @ [entry]\<rparr>)
           \<and> action entry = ''PAYMENT_COMPLETED'' \<and> entityType entry = ''PAYMENT''"
proof -
  from checkout_tx_Inr [OF tx] obtain pay :: payment and pays parts tx' where
    f: "find (\<lambda>p. stripeSessionId p = session_id session) (payments s) = Some pay"
    and up: "update_where (\<lambda>p. pay_id p = pay_id pay) (payment_completed session) (payments s) = Some pays"
    and uq: "update_where (\<lambda>q. part_id q = md_participantId md) (participant_activated md)
              (participants s) = Some parts"
    and pr: "process_referral now session md pay (s\<lparr>payments := pays, participants := parts\<rparr>) = Inr tx'"
    and s1: "s1 = auditLog_create (Some (md_userId md)) ''PAYMENT_COMPLETED'' ''PAYMENT'' (pay_id pay)
                  [(''status'', JString ''COMPLETED''),
                   (''tier'', JString (tier_name (md_tier md))),
                   (''amount'', JNumber (amount pay))] None None tx'"
    by blast
  note fr = process_referral_frame [OF pr]
  from s1 fr have p1: "payments s1 = pays" and q1: "participants s1 = parts"
    by (simp_all add: auditLog_create_frame)
  from s1 have r1: "referrals s1 = referrals tx'" by (simp add: auditLog_create_frame)
  have "find (\<lambda>p. stripeSessionId p = session_id session) pays = Some pay
      \<or> find (\<lambda>p. stripeSessionId p = session_id session) pays
          = Some (payment_completed session pay)"
    by (rule update_where_find_stable [OF up _ f]) (simp add: payment_completed_def)
  then obtain pay2 :: payment where
    f2: "find (\<lambda>p. stripeSessionId p = session_id session) pays = Some pay2"
    and id2: "pay_id pay2 = pay_id pay"
    by (auto simp: payment_completed_def)
  from update_where_idem [OF up] have up2:
    "update_where (\<lambda>p. pay_id p = pay_id pay) (payment_completed session) pays = Some pays"
    by (simp add: payment_completed_def)
  from update_where_idem [OF uq] have uq2:
    "update_where (\<lambda>q. part_id q = md_participantId md) (participant_activated md) parts
       = Some parts"
    by (simp add: participant_activated_def)
  from process_referral_leaves_none [OF pr] d l r1
  have "md_referralCode md = [] \<or> find (referral_open session md) (referrals s1) = None"
    by simp
  then have "md_referralCode md = []
      \<or> find (referral_open session md)
            (referrals (s1\<lparr>payments := pays, participants := parts\<rparr>)) = None"
    by simp
  then have pr2: "process_referral now' session md pay2 (s1\<lparr>payments := pays, participants := parts\<rparr>)
                    = Inr (s1\<lparr>payments := pays, participants := parts\<rparr>)"
    by (rule process_referral_none)
  have same: "s1\<lparr>payments := pays, participants := parts\<rparr> = s1"
    using p1 q1 by simp
  from up2 id2 have up2':
    "update_where (\<lambda>p. pay_id p = pay_id pay2) (payment_completed session) pays = Some pays"
    by simp
  have "checkout_tx now' session md s1
          = Inr ((), auditLog_create (Some (md_userId md)) ''PAYMENT_COMPLETED'' ''PAYMENT''
                       (pay_id pay2)
                       [(''status'', JString ''COMPLETED''),
                        (''tier'', JString (tier_name (md_tier md))),
                        (''amount'', JNumber (amount pay2))] None None
                       (s1\<lparr>payments := pays, participants := parts\<rparr>))"
    by (simp add: checkout_tx_def p1 q1 f2 up2' uq2 pr2)
  then show ?thesis unfolding same auditLog_create_def
    by (intro exI [where x = "\<lparr>log_id = new_id (map log_id (auditLogs s1)),
            log_userId = Some (md_userId md), action = ''PAYMENT_COMPLETED'',
            entityType = ''PAYMENT'', entityId = pay_id pay2,
            newValues = [(''status'', JString ''COMPLETED''),
                         (''tier'', JString (tier_name (md_tier md))),
                         (''amount'', JNumber (amount pay2))],
            ipAddress = None, userAgent = None\<rparr>"]) simp
qed

lemma update_where_key_all2:
  "distinct (map k xs) \<Longrightarrow> x \<in> set xs \<Longrightarrow> update_where (\<lambda>y. k y = k x) f xs = Some ys
     \<Longrightarrow> list_all2 (\<lambda>a b. b = a \<or> (a = x \<and> b = f x)) xs ys"
proof (induction xs arbitrary: ys)
  case Nil
  then show ?case by simp
next
  case (Cons a xs)
  show ?case
  proof (cases "k a = k x")
    case True
    with Cons.prems(1,2) have "a = x" by (auto simp: image_iff)
    with Cons.prems(3) have "ys = f x # xs" by simp
    with \<open>a = x\<close> show ?thesis by (simp add: list_all2_same)
  next
    case False
    with Cons.prems(2) have x: "x \<in> set xs" by auto
    from False Cons.prems(3) obtain zs where zs: "update_where (\<lambda>y. k y = k x) f xs = Some zs"
      "ys = a # zs" by (cases "update_where (\<lambda>y. k y = k x) f xs") simp_all
    from Cons.prems(1) have "distinct (map k xs)" by simp
    from Cons.IH [OF this x zs(1)] zs(2) show ?thesis by simp
  qed
qed

lemma register_participant_Inl:
  "register_participant d ip ua s = (Inl e, s') \<Longrightarrow> s' = s"
  unfolding register_participant_def transaction_def
  by (simp split: option.splits sum.splits prod.splits)

lemma register_participant_Inr_explicit:
  assumes "register_participant d ip ua s = (Inr res, s')"
  shows "\<exists>rp tx3. referredByPromoter d s = Inr rp
         \<and> register_referral d rp
              (s\<lparr>users := users s @
                   [\<lparr>user_id = new_id (map user_id (users s)), user_email = reg_email d,
                     user_role = PARTICIPANT\<rparr>],
                 participants := participants s @
                   [\<lparr>part_id = new_id (map part_id (participants s)),
                     part_userId = new_id (map user_id (users s)), part_tier = reg_tier d,
                     part_status = (if reg_tier d = FREE then PARTICIPANT_APPROVED
                                    else PARTICIPANT_PENDING),
                     referredBy = reg_referralCode d\<rparr>]\<rparr>) = Inr tx3
         \<and> referrals s' = referrals tx3 \<and> promoters s' = promoters tx3
         \<and> payments s' = payments tx3"
  using assms unfolding register_participant_def transaction_def register_tx_def Let_def
  by (clarsimp split: option.splits sum.splits prod.splits simp: auditLog_create_frame
        split del: if_split)

lemma register_participant_Inr:
  assumes "register_participant d ip ua s = (Inr res, s')"
  shows "\<exists>rp tx2 tx3. referredByPromoter d s = Inr rp
         \<and> referrals tx2 = referrals s \<and> promoters tx2 = promoters s
         \<and> payments tx2 = payments s
         \<and> register_referral d rp tx2 = Inr tx3
         \<and> referrals s' = referrals tx3 \<and> promoters s' = promoters tx3
         \<and> payments s' = payments tx3"
proof -
  let ?tx2 = "s\<lparr>users := users s @
                   [\<lparr>user_id = new_id (map user_id (users s)), user_email = reg_email d,
                     user_role = PARTICIPANT\<rparr>],
                 participants := participants s @
                   [\<lparr>part_id = new_id (map part_id (participants s)),
                     part_userId = new_id (map user_id (users s)), part_tier = reg_tier d,
                     part_status = (if reg_tier d = FREE then PARTICIPANT_APPROVED
                                    else PARTICIPANT_PENDING),
                     referredBy = reg_referralCode d\<rparr>]\<rparr>"
  from register_participant_Inr_explicit [OF assms] obtain rp tx3 where
    a: "referredByPromoter d s = Inr rp" and b: "register_referral d rp ?tx2 = Inr tx3"
    and c: "referrals s' = referrals tx3" "promoters s' = promoters tx3"
      "payments s' = payments tx3" by blast
  have "referrals ?tx2 = referrals s" "promoters ?tx2 = promoters s" "payments ?tx2 = payments s"
    by simp_all
  with a b c show ?thesis by blast
qed

lemma register_referral_Some:
  assumes "register_referral d (Some p) tx = Inr tx'"
  shows "\<exists>ps. update_where (\<lambda>x. prom_id x = prom_id p)
                 (\<lambda>x. x\<lparr>totalReferrals := totalReferrals x + 1\<rparr>) (promoters tx) = Some ps
           \<and> promoters tx' = ps
           \<and> referrals tx' = referrals tx @
                 [\<lparr>ref_id = new_id (map ref_id (referrals tx)), promoterId = prom_id p,
                   participantEmail = reg_email d,
                   referralCode = or_empty (reg_referralCode d),
                   ref_tier = reg_tier d, commission = 0,
                   isConverted = (reg_tier d = FREE), convertedAt = None,
                   ref_paymentId = None\<rparr>]
           \<and> payments tx' = payments tx"
  using assms unfolding register_referral_def
  by (clarsimp split: option.splits)

lemma register_referral_None: "register_referral d None tx = Inr tx"
  by (simp add: register_referral_def)

lemma referredByPromoter_Some:
  "referredByPromoter d s = Inr (Some p) \<Longrightarrow>
     (\<exists>c. reg_referralCode d = Some c \<and> c \<noteq> []
        \<and> find (\<lambda>q. prom_referralCode q = c \<and> prom_status q = PROMOTER_APPROVED) (promoters s)
            = Some p)"
  unfolding referredByPromoter_def
  by (simp split: option.splits if_splits)

lemma register_participant_referrals:
  "\<exists>new. referrals (snd (register_participant d ip ua s)) = referrals s @ new"
proof (cases "fst (register_participant d ip ua s)")
  case (Inl e)
  then have "register_participant d ip ua s = (Inl e, snd (register_participant d ip ua s))"
    by (simp add: prod_eq_iff)
  from register_participant_Inl [OF this] show ?thesis by simp
next
  case (Inr res)
  then have "register_participant d ip ua s = (Inr res, snd (register_participant d ip ua s))"
    by (simp add: prod_eq_iff)
  from register_participant_Inr [OF this] obtain rp tx2 tx3 where
    r2: "referrals tx2 = referrals s"
    and rr: "register_referral d rp tx2 = Inr tx3"
    and r: "referrals (snd (register_participant d ip ua s)) = referrals tx3" by blast
  show ?thesis
  proof (cases rp)
    case None
    with rr r r2 show ?thesis by (simp add: register_referral_None)
  next
    case (Some p)
    with rr have "register_referral d (Some p) tx2 = Inr tx3" by simp
    from register_referral_Some [OF this] r r2 show ?thesis by auto
  qed
qed

lemma create_session_Inl:
  "create_session stripeCreate uid body ip ua s = (Inl e, s') \<Longrightarrow> s' = s"
  unfolding create_session_def Let_def
  by (simp split: if_splits option.splits sum.splits prod.splits)

lemma create_session_referrals:
  "referrals (snd (create_session stripeCreate uid body ip ua s)) = referrals s
   \<and> promoters (snd (create_session stripeCreate uid body ip ua s)) = promoters s"
proof (cases "fst (create_session stripeCreate uid body ip ua s)")
  case (Inl e)
  then have "create_session stripeCreate uid body ip ua s
               = (Inl e, snd (create_session stripeCreate uid body ip ua s))"
    by (simp add: prod_eq_iff)
  from create_session_Inl [OF this] show ?thesis by simp
next
  case (Inr res)
  then have "create_session stripeCreate uid body ip ua s
               = (Inr res, snd (create_session stripeCreate uid body ip ua s))"
    by (simp add: prod_eq_iff)
  from create_session_Inr [OF this] show ?thesis by auto
qed

lemma failed_frame:
  "referrals (snd (handlePaymentIntentFailed paymentIntent s)) = referrals s
   \<and> promoters (snd (handlePaymentIntentFailed paymentIntent s)) = promoters s"
  unfolding handlePaymentIntentFailed_def
  by (simp split: option.splits add: auditLog_create_frame)

lemma counters_update_same:
  assumes "update_where (\<lambda>x. prom_id x = p) f ps = Some ps'"
    and "\<And>x. prom_id (f x) = prom_id x"
  shows "\<exists>x. find (\<lambda>x. prom_id x = p) ps = Some x \<and> find (\<lambda>x. prom_id x = p) ps' = Some (f x)"
proof -
  from update_where_mem [OF assms(1)] have "find (\<lambda>x. prom_id x = p) ps \<noteq> None"
    by (auto simp: find_None_iff)
  then obtain x where x: "find (\<lambda>x. prom_id x = p) ps = Some x" by blast
  from update_where_find_same [OF assms(1)] assms(2) x
  have "find (\<lambda>x. prom_id x = p) ps' = Some (f x)" by simp
  with x show ?thesis by blast
qed

lemma counters_update_other:
  assumes "update_where (\<lambda>x. prom_id x = q) f ps = Some ps'"
    and "\<And>x. prom_id (f x) = prom_id x" and "q \<noteq> p"
  shows "find (\<lambda>x. prom_id x = p) ps' = find (\<lambda>x. prom_id x = p) ps"
  by (rule update_where_find_other [OF assms(1)]) (use assms(2,3) in auto)

lemma find_append_one:
  "find P (xs @ [y]) = (case find P xs of Some x \<Rightarrow> Some x | None \<Rightarrow> if P y then Some y else None)"
  by (induction xs) auto

lemma checkout_tx_promoters:
  assumes "checkout_tx now session md s = Inr (u, s')"
  shows "(promoters s' = promoters s
            \<and> (md_referralCode md = [] \<or> find (referral_open session md) (referrals s) = None))
       \<or> (md_referralCode md \<noteq> []
            \<and> (\<exists>r. find (referral_open session md) (referrals s) = Some r
                  \<and> update_where (\<lambda>x. prom_id x = promoterId r) (promoter_credited r)
                       (promoters s) = Some (promoters s')))"
proof -
  from checkout_tx_Inr [OF assms] obtain pay :: payment and pays parts tx' where
    pr: "process_referral now session md pay (s\<lparr>payments := pays, participants := parts\<rparr>) = Inr tx'"
    and s': "s' = auditLog_create (Some (md_userId md)) ''PAYMENT_COMPLETED'' ''PAYMENT'' (pay_id pay)
                  [(''status'', JString ''COMPLETED''),
                   (''tier'', JString (tier_name (md_tier md))),
                   (''amount'', JNumber (amount pay))] None None tx'"
    by blast
  from s' have p': "promoters s' = promoters tx'" by (simp add: auditLog_create_frame)
  show ?thesis
  proof (cases "md_referralCode md = [] \<or> find (referral_open session md) (referrals s) = None")
    case True
    then have "process_referral now session md pay (s\<lparr>payments := pays, participants := parts\<rparr>)
                 = Inr (s\<lparr>payments := pays, participants := parts\<rparr>)"
      by (intro process_referral_none) simp
    with pr have "promoters tx' = promoters s" by auto
    with p' True show ?thesis by simp
  next
    case False
    then obtain r :: referral where ne: "md_referralCode md \<noteq> []"
      and fr: "find (referral_open session md) (referrals s) = Some r" by auto
    from pr ne fr obtain ps where
      "update_where (\<lambda>x. prom_id x = promoterId r) (promoter_credited r) (promoters s) = Some ps"
      "promoters tx' = ps"
      by (auto simp: process_referral_def split: option.splits)
    with p' ne fr show ?thesis by simp
  qed
qed

lemma counters_cong: "promoters s' = promoters s \<Longrightarrow> counters p s' = counters p s"
  by (simp add: counters_def)

lemma checkout_counters:
  "counters p (snd (handleCheckoutSessionCompleted now session s))
     = (fst (counters p s) + int (length (op_conversions p (Webhook now (CheckoutSessionCompleted session)) s)),
        snd (counters p s)
          + sum_list (map commission (op_conversions p (Webhook now (CheckoutSessionCompleted session)) s)))"
proof (cases "fst (handleCheckoutSessionCompleted now session s)")
  case (Inl e)
  then have "handleCheckoutSessionCompleted now session s
               = (Inl e, snd (handleCheckoutSessionCompleted now session s))"
    by (simp add: prod_eq_iff)
  from handle_checkout_Inl [OF this] Inl show ?thesis by (simp add: conversion_def)
next
  case (Inr u)
  let ?s' = "snd (handleCheckoutSessionCompleted now session s)"
  from Inr have h: "handleCheckoutSessionCompleted now session s = (Inr u, ?s')"
    by (simp add: prod_eq_iff)
  from handle_checkout_Inr [OF h] obtain md where md: "session_metadata session = Some md"
    and tx: "checkout_tx now session md s = Inr ((), ?s')" by blast
  from Inr md have conv: "conversion now session s
      = (if md_referralCode md = [] then None else find (referral_open session md) (referrals s))"
    by (simp add: conversion_def)
  from checkout_tx_promoters [OF tx] consider
    (kept) "promoters ?s' = promoters s"
      "md_referralCode md = [] \<or> find (referral_open session md) (referrals s) = None"
    | (converted) r :: referral where "md_referralCode md \<noteq> []"
      "find (referral_open session md) (referrals s) = Some r"
      "update_where (\<lambda>x. prom_id x = promoterId r) (promoter_credited r) (promoters s)
         = Some (promoters ?s')"
    by auto
  then show ?thesis
  proof cases
    case kept
    from kept(2) conv have "conversion now session s = None" by auto
    with counters_cong [OF kept(1)] show ?thesis by simp
  next
    case converted
    with conv have c: "conversion now session s = Some r" by simp
    show ?thesis
    proof (cases "promoterId r = p")
      case True
      with converted(3) have
        "update_where (\<lambda>x. prom_id x = p) (promoter_credited r) (promoters s) = Some (promoters ?s')"
        by simp
      from counters_update_same [OF this] obtain x where
        "find (\<lambda>x. prom_id x = p) (promoters s) = Some x"
        "find (\<lambda>x. prom_id x = p) (promoters ?s') = Some (promoter_credited r x)"
        by (auto simp: promoter_credited_def)
      with c True show ?thesis by (simp add: counters_def promoter_credited_def)
    next
      case False
      from counters_update_other [OF converted(3) _ False]
      have "find (\<lambda>x. prom_id x = p) (promoters ?s') = find (\<lambda>x. prom_id x = p) (promoters s)"
        by (simp add: promoter_credited_def)
      with c False show ?thesis by (simp add: counters_def)
    qed
  qed
qed

lemma register_counters:
  "counters p (snd (register_participant d ip ua s))
     = (fst (counters p s) + int (op_registrations p (RegisterParticipant d ip ua) s),
        snd (counters p s))"
proof (cases "fst (register_participant d ip ua s)")
  case (Inl e)
  then have "register_participant d ip ua s = (Inl e, snd (register_participant d ip ua s))"
    by (simp add: prod_eq_iff)
  from register_participant_Inl [OF this] Inl show ?thesis
    by (simp add: registration_credit_def)
next
  case (Inr res)
  let ?s' = "snd (register_participant d ip ua s)"
  from Inr have "register_participant d ip ua s = (Inr res, ?s')" by (simp add: prod_eq_iff)
  from register_participant_Inr [OF this] obtain rp tx2 tx3 where
    rp: "referredByPromoter d s = Inr rp" and p2: "promoters tx2 = promoters s"
    and rr: "register_referral d rp tx2 = Inr tx3" and p3: "promoters ?s' = promoters tx3"
    by blast
  show ?thesis
  proof (cases rp)
    case None
    with rr have "tx3 = tx2" by (simp add: register_referral_None)
    with p2 p3 have "promoters ?s' = promoters s" by simp
    from counters_cong [OF this] Inr rp None show ?thesis
      by (simp add: registration_credit_def)
  next
    case (Some q)
    with rr have "register_referral d (Some q) tx2 = Inr tx3" by simp
    from register_referral_Some [OF this] p2 p3 have up:
      "update_where (\<lambda>x. prom_id x = prom_id q)
         (\<lambda>x. x\<lparr>totalReferrals := totalReferrals x + 1\<rparr>) (promoters s) = Some (promoters ?s')"
      by auto
    from Inr rp Some have cr: "registration_credit d ip ua s = Some (prom_id q)"
      by (simp add: registration_credit_def)
    show ?thesis
    proof (cases "prom_id q = p")
      case True
      with up have
        "update_where (\<lambda>x. prom_id x = p)
           (\<lambda>x. x\<lparr>totalReferrals := totalReferrals x + 1\<rparr>) (promoters s) = Some (promoters ?s')"
        by simp
      from counters_update_same [OF this] obtain x where
        "find (\<lambda>x. prom_id x = p) (promoters s) = Some x"
        "find (\<lambda>x. prom_id x = p) (promoters ?s')
           = Some (x\<lparr>totalReferrals := totalReferrals x + 1\<rparr>)"
        by auto
      with cr True show ?thesis by (simp add: counters_def)
    next
      case False
      from counters_update_other [OF up _ False]
      have "find (\<lambda>x. prom_id x = p) (promoters ?s') = find (\<lambda>x. prom_id x = p) (promoters s)"
        by simp
      with cr False show ?thesis by (simp add: counters_def)
    qed
  qed
qed

lemma register_promoter_Inl:
  "register_promoter draws d ip ua s = Some (Inl e, s') \<Longrightarrow> s' = s"
  unfolding register_promoter_def transaction_def promoter_tx_def Let_def
  by (simp split: option.splits)

lemma register_promoter_counters:
  assumes "register_promoter draws d ip ua s = Some (res, s')"
  shows "counters p s' = counters p s"
proof (cases res)
  case (Inl e)
  with assms register_promoter_Inl show ?thesis by blast
next
  case (Inr a)
  with assms have "register_promoter draws d ip ua s = Some (Inr a, s')" by simp
  from register_promoter_Inr [OF this] show ?thesis
    by (auto simp: counters_def find_append_one split: option.splits)
qed

lemma step_counters:
  assumes "step a s = Some s'"
  shows "counters p s'
           = (fst (counters p s) + int (op_registrations p a s) + int (length (op_conversions p a s)),
              snd (counters p s) + sum_list (map commission (op_conversions p a s)))"
proof (cases a)
  case (RegisterParticipant d ip ua)
  with assms have "s' = snd (register_participant d ip ua s)" by simp
  with RegisterParticipant show ?thesis by (simp add: register_counters)
next
  case (RegisterPromoter draws d ip ua)
  with assms obtain res where "register_promoter draws d ip ua s = Some (res, s')" by auto
  from register_promoter_counters [OF this] RegisterPromoter show ?thesis by simp
next
  case (CreateSession provided uid body ip ua)
  with assms have "s' = snd (create_session (\<lambda>params. provided) uid body ip ua s)" by simp
  with create_session_referrals have "promoters s' = promoters s" by simp
  from counters_cong [OF this] CreateSession show ?thesis by simp
next
  case (Webhook now ev)
  show ?thesis
  proof (cases ev)
    case (CheckoutSessionCompleted session)
    with Webhook assms have "s' = snd (handleCheckoutSessionCompleted now session s)" by simp
    with Webhook CheckoutSessionCompleted show ?thesis by (simp only: checkout_counters) simp
  next
    case (PaymentIntentFailed paymentIntent)
    with Webhook assms have "s' = snd (handlePaymentIntentFailed paymentIntent s)" by simp
    with failed_frame have "promoters s' = promoters s" by simp
    from counters_cong [OF this] Webhook PaymentIntentFailed show ?thesis by simp
  next
    case (PaymentIntentSucceeded paymentIntent)
    with Webhook assms have "s' = s" by (simp add: handlePaymentIntentSucceeded_def)
    with Webhook PaymentIntentSucceeded show ?thesis by simp
  next
    case (InvoicePaymentSucceeded i)
    with Webhook assms have "s' = s" by simp
    with Webhook InvoicePaymentSucceeded show ?thesis by simp
  next
    case (OtherEvent k)
    with Webhook assms have "s' = s" by simp
    with Webhook OtherEvent show ?thesis by simp
  qed
qed

lemma fold_max_ge: "a \<le> fold max ids a \<and> (\<forall>x\<in>set ids. x \<le> fold max ids (a::nat))"
proof (induction ids arbitrary: a)
  case Nil
  then show ?case by simp
next
  case (Cons i ids)
  from Cons.IH [of "max i a"] show ?case by auto
qed

lemma new_id_fresh: "new_id ids \<notin> set ids"
proof
  assume "new_id ids \<in> set ids"
  with fold_max_ge [of 0 ids] have "new_id ids \<le> fold max ids 0" by blast
  then show False by (simp add: new_id_def)
qed

lemma register_participant_Inr_users:
  assumes "register_participant d ip ua s = (Inr res, s')"
  shows "find (\<lambda>u. user_email u = reg_email d) (users s) = None
       \<and> map user_email (users s') = map user_email (users s) @ [reg_email d]"
proof -
  from assms have none: "find (\<lambda>u. user_email u = reg_email d) (users s) = None"
    unfolding register_participant_def
    by (simp split: option.splits sum.splits)
  from assms obtain rp where
    "register_tx d rp ip ua s = Inr (res, s')"
    unfolding register_participant_def transaction_def
    by (auto split: option.splits sum.splits)
  then have "map user_email (users s') = map user_email (users s) @ [reg_email d]"
    unfolding register_tx_def Let_def register_referral_def
    by (auto split: option.splits sum.splits simp: auditLog_create_frame)
  with none show ?thesis by simp
qed

lemma register_participant_ok:
  assumes ok: "referrals_ok s"
  shows "referrals_ok (snd (register_participant d ip ua s))"
proof (cases "fst (register_participant d ip ua s)")
  case (Inl e)
  then have "register_participant d ip ua s = (Inl e, snd (register_participant d ip ua s))"
    by (simp add: prod_eq_iff)
  from register_participant_Inl [OF this] ok show ?thesis by simp
next
  case (Inr res)
  let ?s' = "snd (register_participant d ip ua s)"
  from Inr have reg: "register_participant d ip ua s = (Inr res, ?s')" by (simp add: prod_eq_iff)
  from register_participant_Inr_users [OF reg] have
    none: "find (\<lambda>u. user_email u = reg_email d) (users s) = None"
    and us: "map user_email (users ?s') = map user_email (users s) @ [reg_email d]" by simp_all
  from none have fresh: "reg_email d \<notin> set (map user_email (users s))"
    by (auto simp: find_None_iff)
  with ok have fresh_r: "reg_email d \<notin> set (map participantEmail (referrals s))"
    by (auto simp: referrals_ok_def list_all_iff)
  from register_participant_Inr [OF reg] obtain rp tx2 tx3 where
    r2: "referrals tx2 = referrals s"
    and rr: "register_referral d rp tx2 = Inr tx3"
    and r: "referrals ?s' = referrals tx3" by blast
  show ?thesis
  proof (cases rp)
    case None
    with rr r r2 have "referrals ?s' = referrals s" by (simp add: register_referral_None)
    with ok us show ?thesis by (auto simp: referrals_ok_def list_all_iff)
  next
    case (Some p)
    with rr have "register_referral d (Some p) tx2 = Inr tx3" by simp
    from register_referral_Some [OF this] r r2 obtain rf where
      rs: "referrals ?s' = referrals s @ [rf]"
      and id: "ref_id rf = new_id (map ref_id (referrals s))"
      and em: "participantEmail rf = reg_email d" by auto
    from id new_id_fresh [of "map ref_id (referrals s)"]
    have "ref_id rf \<notin> set (map ref_id (referrals s))" by simp
    with ok rs em fresh_r us show ?thesis
      by (auto simp: referrals_ok_def list_all_iff)
  qed
qed

lemma register_promoter_ok:
  assumes ok: "referrals_ok s" and reg: "register_promoter draws d ip ua s = Some (res, s')"
  shows "referrals_ok s'"
proof (cases res)
  case (Inl e)
  with reg register_promoter_Inl ok show ?thesis by blast
next
  case (Inr a)
  with reg obtain code where "promoter_tx d code ip ua s = Inr (a, s')"
    unfolding register_promoter_def transaction_def
    by (auto split: option.splits sum.splits)
  then have "referrals s' = referrals s"
    and "map user_email (users s') = map user_email (users s) @ [pa_email d]"
    unfolding promoter_tx_def Let_def by (auto simp: auditLog_create_frame)
  with ok show ?thesis by (auto simp: referrals_ok_def list_all_iff)
qed

lemma create_session_users:
  "users (snd (create_session stripeCreate uid body ip ua s)) = users s"
proof (cases "fst (create_session stripeCreate uid body ip ua s)")
  case (Inl e)
  then have "create_session stripeCreate uid body ip ua s
               = (Inl e, snd (create_session stripeCreate uid body ip ua s))"
    by (simp add: prod_eq_iff)
  from create_session_Inl [OF this] show ?thesis by simp
next
  case (Inr res)
  then have "create_session stripeCreate uid body ip ua s
               = (Inr res, snd (create_session stripeCreate uid body ip ua s))"
    by (simp add: prod_eq_iff)
  from create_session_Inr [OF this] show ?thesis by auto
qed

lemma checkout_ok:
  assumes ok: "referrals_ok s"
  shows "referrals_ok (snd (handleCheckoutSessionCompleted now session s))"
proof (cases "fst (handleCheckoutSessionCompleted now session s)")
  case (Inl e)
  then have "handleCheckoutSessionCompleted now session s
               = (Inl e, snd (handleCheckoutSessionCompleted now session s))"
    by (simp add: prod_eq_iff)
  from handle_checkout_Inl [OF this] ok show ?thesis by simp
next
  case (Inr u)
  let ?s' = "snd (handleCheckoutSessionCompleted now session s)"
  from Inr have h: "handleCheckoutSessionCompleted now session s = (Inr u, ?s')"
    by (simp add: prod_eq_iff)
  from handle_checkout_Inr [OF h] obtain md where
    tx: "checkout_tx now session md s = Inr ((), ?s')" by blast
  from checkout_tx_Inr [OF tx] obtain pay :: payment and pays parts tx' where
    pr: "process_referral now session md pay (s\<lparr>payments := pays, participants := parts\<rparr>) = Inr tx'"
    and s': "?s' = auditLog_create (Some (md_userId md)) ''PAYMENT_COMPLETED'' ''PAYMENT'' (pay_id pay)
                  [(''status'', JString ''COMPLETED''),
                   (''tier'', JString (tier_name (md_tier md))),
                   (''amount'', JNumber (amount pay))] None None tx'"
    by blast
  from process_referral_frame [OF pr] s' have u: "users ?s' = users s"
    by (simp add: auditLog_create_frame)
  from s' have r: "referrals ?s' = referrals tx'" by (simp add: auditLog_create_frame)
  have "map ref_id (referrals tx') = map ref_id (referrals s)
      \<and> map participantEmail (referrals tx') = map participantEmail (referrals s)"
  proof (cases "md_referralCode md = [] \<or> find (referral_open session md) (referrals s) = None")
    case True
    then have "process_referral now session md pay (s\<lparr>payments := pays, participants := parts\<rparr>)
                 = Inr (s\<lparr>payments := pays, participants := parts\<rparr>)"
      by (intro process_referral_none) simp
    with pr have "referrals tx' = referrals s" by auto
    then show ?thesis by simp
  next
    case False
    then obtain r :: referral where ne: "md_referralCode md \<noteq> []"
      and fr: "find (referral_open session md) (referrals s) = Some r" by auto
    from pr ne fr obtain rs where
      up: "update_where (\<lambda>x. ref_id x = ref_id r) (referral_converted now pay) (referrals s) = Some rs"
      and t: "referrals tx' = rs"
      by (auto simp: process_referral_def split: option.splits)
    from update_where_map [OF up, of ref_id] update_where_map [OF up, of participantEmail] t
    show ?thesis by (simp add: referral_converted_def)
  qed
  with r have m: "map ref_id (referrals ?s') = map ref_id (referrals s)"
    "map participantEmail (referrals ?s') = map participantEmail (referrals s)" by simp_all
  from ok have "list_all (\<lambda>e. e \<in> set (map user_email (users s))) (map participantEmail (referrals s))"
    by (simp add: referrals_ok_def list_all_iff)
  with m(2) u have "list_all (\<lambda>e. e \<in> set (map user_email (users ?s')))
                      (map participantEmail (referrals ?s'))" by simp
  then have "list_all (\<lambda>r. participantEmail r \<in> set (map user_email (users ?s'))) (referrals ?s')"
    by (simp add: list_all_iff)
  with ok m show ?thesis by (simp add: referrals_ok_def)
qed

lemma step_ok:
  assumes "referrals_ok s" and "step a s = Some s'"
  shows "referrals_ok s'"
proof (cases a)
  case (RegisterParticipant d ip ua)
  with assms(2) have "s' = snd (register_participant d ip ua s)" by simp
  with register_participant_ok [OF assms(1)] show ?thesis by simp
next
  case (RegisterPromoter draws d ip ua)
  with assms(2) obtain res where "register_promoter draws d ip ua s = Some (res, s')" by auto
  from register_promoter_ok [OF assms(1) this] show ?thesis .
next
  case (CreateSession provided uid body ip ua)
  with assms(2) have "s' = snd (create_session (\<lambda>params. provided) uid body ip ua s)" by simp
  with create_session_referrals create_session_users
  have "referrals s' = referrals s" "users s' = users s" by simp_all
  with assms(1) show ?thesis by (simp add: referrals_ok_def)
next
  case (Webhook now ev)
  show ?thesis
  proof (cases ev)
    case (CheckoutSessionCompleted session)
    with Webhook assms(2) have "s' = snd (handleCheckoutSessionCompleted now session s)" by simp
    with checkout_ok [OF assms(1)] show ?thesis by simp
  next
    case (PaymentIntentFailed paymentIntent)
    with Webhook assms(2) have s': "s' = snd (handlePaymentIntentFailed paymentIntent s)" by simp
    with failed_frame have "referrals s' = referrals s" by simp
    moreover from s' have "users s' = users s"
      unfolding handlePaymentIntentFailed_def
      by (simp split: option.splits add: auditLog_create_frame)
    ultimately show ?thesis using assms(1) by (simp add: referrals_ok_def)
  next
    case (PaymentIntentSucceeded paymentIntent)
    with Webhook assms show ?thesis by (simp add: handlePaymentIntentSucceeded_def)
  next
    case (InvoicePaymentSucceeded i)
    with Webhook assms show ?thesis by simp
  next
    case (OtherEvent k)
    with Webhook assms show ?thesis by simp
  qed
qed

lemma run_ok: "referrals_ok s \<Longrightarrow> run ops s = Some s' \<Longrightarrow> referrals_ok s'"
proof (induction ops arbitrary: s)
  case Nil
  then show ?case by simp
next
  case (Cons a ops)
  from Cons.prems(2) obtain s1 where a: "step a s = Some s1" and r: "run ops s1 = Some s'"
    by (auto split: option.splits)
  from step_ok [OF Cons.prems(1) a] have "referrals_ok s1" .
  from Cons.IH [OF this r] show ?case .
qed

lemma distinct_filter_key:
  "distinct (map k xs) \<Longrightarrow> length (filter (\<lambda>x. k x = e \<and> Q x) xs) \<le> 1"
proof (induction xs)
  case Nil
  then show ?case by simp
next
  case (Cons x xs)
  show ?case
  proof (cases "k x = e")
    case True
    with Cons.prems have "e \<notin> k ` set xs" by simp
    then have "\<forall>y\<in>set xs. k y \<noteq> e" by blast
    then have "filter (\<lambda>x. k x = e \<and> Q x) xs = []" by (simp add: filter_empty_conv)
    then show ?thesis by simp
  next
    case False
    with Cons show ?thesis by simp
  qed
qed

lemma referrals_ok_start:
  "referrals_ok empty_store" "referrals_ok example_store"
  by (simp_all add: referrals_ok_def empty_store_def example_store_def)

lemma example_reachable:
  "run [RegisterParticipant example_registration None None] example_store
     = Some example_registered"
  "map participantEmail (referrals example_registered) = [''alice@example.com'']"
  by (simp_all add: example_register_step) (simp add: example_registered_def)

lemma reachable_referrals:
  assumes "referrals_ok s0" and "run ops s0 = Some s"
  shows "distinct (map ref_id (referrals s))
       \<and> length (filter (referral_open session md) (referrals s)) \<le> 1"
proof -
  from run_ok [OF assms] have ok: "referrals_ok s" .
  then have d: "distinct (map participantEmail (referrals s))" by (simp add: referrals_ok_def)
  have "referral_open session md
          = (\<lambda>r. participantEmail r = customer_email session
                  \<and> (referralCode r = md_referralCode md \<and> \<not> isConverted r))"
    by (simp add: fun_eq_iff referral_open_def)
  with distinct_filter_key [OF d] ok show ?thesis by (simp add: referrals_ok_def)
qed

lemma checkout_redelivery_reachable:
  assumes "referrals_ok s0" and "run ops s0 = Some s"
    and "handleCheckoutSessionCompleted now session s = (Inr u, s1)"
  shows "\<exists>entry. handleCheckoutSessionCompleted now' session s1
                  = (Inr (), s1\<lparr>auditLogs := auditLogs s1 @ [entry]\<rparr>)
           \<and> action entry = ''PAYMENT_COMPLETED'' \<and> entityType entry = ''PAYMENT''"
proof -
  from handle_checkout_Inr [OF assms(3)] obtain md where
    md: "session_metadata session = Some md"
    and tx: "checkout_tx now session md s = Inr ((), s1)" by blast
  from reachable_referrals [OF assms(1,2), of session md] have
    "distinct (map ref_id (referrals s))"
    "length (filter (referral_open session md) (referrals s)) \<le> 1" by simp_all
  from checkout_tx_again [OF tx this, of now'] md show ?thesis
    by (auto simp: handleCheckoutSessionCompleted_def transaction_def)
qed

lemma update_where_key_map:
  "distinct (map k xs) \<Longrightarrow> x \<in> set xs \<Longrightarrow> update_where (\<lambda>y. k y = k x) f xs = Some ys
     \<Longrightarrow> ys = map (\<lambda>y. if k y = k x then f y else y) xs"
proof (induction xs arbitrary: ys)
  case Nil
  then show ?case by simp
next
  case (Cons a xs)
  show ?case
  proof (cases "k a = k x")
    case True
    with Cons.prems(3) have ys: "ys = f a # xs" by simp
    from Cons.prems(1) True have "k x \<notin> k ` set xs" by simp
    then have "\<forall>y\<in>set xs. k y \<noteq> k x" by (metis imageI)
    then have "map (\<lambda>y. if k y = k x then f y else y) xs = xs"
      by (simp add: map_idI)
    with ys True show ?thesis by simp
  next
    case False
    with Cons.prems(2) have x: "x \<in> set xs" by auto
    from False Cons.prems(3) obtain zs where zs: "update_where (\<lambda>y. k y = k x) f xs = Some zs"
      "ys = a # zs" by (cases "update_where (\<lambda>y. k y = k x) f xs") simp_all
    from Cons.prems(1) have "distinct (map k xs)" by simp
    from Cons.IH [OF this x zs(1)] zs(2) False show ?thesis by simp
  qed
qed

lemma failed_payments_exact:
  assumes f: "find (\<lambda>p. stripePaymentIntentId p = pi_id paymentIntent) (payments s) = Some pay"
    and d: "distinct (map pay_id (payments s))"
  shows "payments (snd (handlePaymentIntentFailed paymentIntent s))
           = map (\<lambda>p. if pay_id p = pay_id pay then payment_failed paymentIntent p else p)
               (payments s)"
proof -
  from f have pin: "pay \<in> set (payments s)" by (rule find_SomeD)
  from update_where_Some [OF pin, of "\<lambda>p. pay_id p = pay_id pay"] obtain pays where up:
    "update_where (\<lambda>p. pay_id p = pay_id pay) (payment_failed paymentIntent) (payments s) = Some pays"
    by auto
  with f have "payments (snd (handlePaymentIntentFailed paymentIntent s)) = pays"
    by (simp add: handlePaymentIntentFailed_def auditLog_create_frame)
  with update_where_key_map [OF d pin up] show ?thesis by simp
qed

lemma failed_none:
  "find (\<lambda>p. stripePaymentIntentId p = pi_id paymentIntent) (payments s) = None
     \<Longrightarrow> handlePaymentIntentFailed paymentIntent s = (Inr (), s)"
  by (simp add: handlePaymentIntentFailed_def)

lemma checkout_tx_tables:
  assumes tx: "checkout_tx now session md s = Inr (u, s')"
  shows "\<exists>pay. find (\<lambda>p. stripeSessionId p = session_id session) (payments s) = Some pay
       \<and> update_where (\<lambda>p. pay_id p = pay_id pay) (payment_completed session) (payments s)
            = Some (payments s')
       \<and> (((md_referralCode md = [] \<or> find (referral_open session md) (referrals s) = None)
              \<and> referrals s' = referrals s \<and> promoters s' = promoters s)
          \<or> (md_referralCode md \<noteq> []
              \<and> (\<exists>rf. find (referral_open session md) (referrals s) = Some rf
                    \<and> update_where (\<lambda>x. ref_id x = ref_id rf) (referral_converted now pay)
                         (referrals s) = Some (referrals s')
                    \<and> update_where (\<lambda>x. prom_id x = promoterId rf) (promoter_credited rf)
                         (promoters s) = Some (promoters s'))))"
proof -
  from checkout_tx_Inr [OF tx] obtain pay :: payment and pays parts tx' where
    f: "find (\<lambda>p. stripeSessionId p = session_id session) (payments s) = Some pay"
    and up: "update_where (\<lambda>p. pay_id p = pay_id pay) (payment_completed session) (payments s) = Some pays"
    and pr: "process_referral now session md pay (s\<lparr>payments := pays, participants := parts\<rparr>) = Inr tx'"
    and s': "s' = auditLog_create (Some (md_userId md)) ''PAYMENT_COMPLETED'' ''PAYMENT'' (pay_id pay)
                  [(''status'', JString ''COMPLETED''),
                   (''tier'', JString (tier_name (md_tier md))),
                   (''amount'', JNumber (amount pay))] None None tx'"
    by blast
  from s' have r': "referrals s' = referrals tx'" and p': "promoters s' = promoters tx'"
    by (simp_all add: auditLog_create_frame)
  from process_referral_frame [OF pr] s' have "payments s' = pays"
    by (simp add: auditLog_create_frame)
  with up have up': "update_where (\<lambda>p. pay_id p = pay_id pay) (payment_completed session) (payments s)
            = Some (payments s')" by simp
  show ?thesis
  proof (cases "md_referralCode md = [] \<or> find (referral_open session md) (referrals s) = None")
    case True
    then have "process_referral now session md pay (s\<lparr>payments := pays, participants := parts\<rparr>)
                 = Inr (s\<lparr>payments := pays, participants := parts\<rparr>)"
      by (intro process_referral_none) simp
    with pr have "referrals tx' = referrals s" "promoters tx' = promoters s" by auto
    with r' p' True f up' show ?thesis by simp
  next
    case False
    then obtain rf :: referral where ne: "md_referralCode md \<noteq> []"
      and fr: "find (referral_open session md) (referrals s) = Some rf" by auto
    from pr ne fr obtain rs ps where
      "update_where (\<lambda>x. ref_id x = ref_id rf) (referral_converted now pay) (referrals s) = Some rs"
      "update_where (\<lambda>x. prom_id x = promoterId rf) (promoter_credited rf) (promoters s) = Some ps"
      "referrals tx' = rs" "promoters tx' = ps"
      by (auto simp: process_referral_def split: option.splits)
    with r' p' ne fr f up' show ?thesis by simp
  qed
qed

lemma checkout_tx_succeeds:
  assumes f: "find (\<lambda>p. stripeSessionId p = session_id session) (payments s) = Some pay"
    and q: "q \<in> set (participants s)" "part_id q = md_participantId md"
    and p: "\<And>rf. md_referralCode md \<noteq> [] \<Longrightarrow>
               find (referral_open session md) (referrals s) = Some rf \<Longrightarrow>
               \<exists>p\<in>set (promoters s). prom_id p = promoterId rf"
  shows "\<exists>s'. checkout_tx now session md s = Inr ((), s')"
proof -
  from f have "pay \<in> set (payments s)" by (rule find_SomeD)
  from update_where_Some [OF this, of "\<lambda>p. pay_id p = pay_id pay"] obtain pays where up:
    "update_where (\<lambda>p. pay_id p = pay_id pay) (payment_completed session) (payments s) = Some pays"
    by auto
  from update_where_Some [OF q(1), of "\<lambda>x. part_id x = md_participantId md"] q(2)
  obtain parts where uq:
    "update_where (\<lambda>x. part_id x = md_participantId md) (participant_activated md)
       (participants s) = Some parts" by auto
  let ?tx = "s\<lparr>payments := pays, participants := parts\<rparr>"
  have "\<exists>tx'. process_referral now session md pay ?tx = Inr tx'"
  proof (cases "md_referralCode md = [] \<or> find (referral_open session md) (referrals s) = None")
    case True
    then have "process_referral now session md pay ?tx = Inr ?tx"
      by (intro process_referral_none) simp
    then show ?thesis by blast
  next
    case False
    then obtain rf :: referral where ne: "md_referralCode md \<noteq> []"
      and fr: "find (referral_open session md) (referrals s) = Some rf" by auto
    from fr have "rf \<in> set (referrals s)" by (rule find_SomeD)
    from update_where_Some [OF this, of "\<lambda>x. ref_id x = ref_id rf"] obtain rs where ur:
      "update_where (\<lambda>x. ref_id x = ref_id rf) (referral_converted now pay) (referrals s) = Some rs"
      by auto
    from p [OF ne fr] obtain pm where "pm \<in> set (promoters s)" "prom_id pm = promoterId rf"
      by blast
    from update_where_Some [OF this(1), of "\<lambda>x. prom_id x = promoterId rf"] this(2)
    obtain ps where upm:
      "update_where (\<lambda>x. prom_id x = promoterId rf) (promoter_credited rf) (promoters s) = Some ps"
      by auto
    from ne fr ur upm show ?thesis by (simp add: process_referral_def)
  qed
  then obtain tx' where "process_referral now session md pay ?tx = Inr tx'" by blast
  with f up uq show ?thesis by (simp add: checkout_tx_def)
qed

lemma checkout_tx_promoter_effects:
  assumes tx: "checkout_tx now session md s = Inr (u, s')"
  shows "((md_referralCode md = [] \<or> find (referral_open session md) (referrals s) = None) \<longrightarrow>
            referrals s' = referrals s \<and> promoters s' = promoters s)
       \<and> (\<forall>rf. md_referralCode md \<noteq> [] \<longrightarrow>
              find (referral_open session md) (referrals s) = Some rf \<longrightarrow>
                (\<exists>pr pr'. find (\<lambda>p. prom_id p = promoterId rf) (promoters s) = Some pr
                    \<and> find (\<lambda>p. prom_id p = promoterId rf) (promoters s') = Some pr'
                    \<and> totalReferrals pr' = totalReferrals pr + 1
                    \<and> totalRevenue pr' = totalRevenue pr + commission rf)
              \<and> (\<forall>p. p \<noteq> promoterId rf \<longrightarrow>
                    find (\<lambda>x. prom_id x = p) (promoters s')
                      = find (\<lambda>x. prom_id x = p) (promoters s)))"
proof (intro conjI allI impI)
  assume "md_referralCode md = [] \<or> find (referral_open session md) (referrals s) = None"
  with checkout_tx_tables [OF tx]
  show "referrals s' = referrals s" and "promoters s' = promoters s" by auto
next
  fix rf
  assume ne: "md_referralCode md \<noteq> []"
    and fr: "find (referral_open session md) (referrals s) = Some rf"
  with checkout_tx_tables [OF tx] have up:
    "update_where (\<lambda>x. prom_id x = promoterId rf) (promoter_credited rf) (promoters s)
       = Some (promoters s')" by auto
  from counters_update_same [OF up] obtain x where
    "find (\<lambda>x. prom_id x = promoterId rf) (promoters s) = Some x"
    "find (\<lambda>x. prom_id x = promoterId rf) (promoters s') = Some (promoter_credited rf x)"
    by (auto simp: promoter_credited_def)
  then show "\<exists>pr pr'. find (\<lambda>p. prom_id p = promoterId rf) (promoters s) = Some pr
                    \<and> find (\<lambda>p. prom_id p = promoterId rf) (promoters s') = Some pr'
                    \<and> totalReferrals pr' = totalReferrals pr + 1
                    \<and> totalRevenue pr' = totalRevenue pr + commission rf"
    by (simp add: promoter_credited_def)
  fix p
  assume "p \<noteq> promoterId rf"
  then have "promoterId rf \<noteq> p" by simp
  from counters_update_other [OF up _ this]
  show "find (\<lambda>x. prom_id x = p) (promoters s') = find (\<lambda>x. prom_id x = p) (promoters s)"
    by (simp add: promoter_credited_def)
qed

lemma example_two_step:
  "handleCheckoutSessionCompleted 5 example_session example_two_referrals
     = (Inr (), example_two_converted)"
  by (simp add: handleCheckoutSessionCompleted_def transaction_def checkout_tx_def
        process_referral_def referral_open_def payment_completed_def participant_activated_def
        referral_converted_def promoter_credited_def auditLog_create_def new_id_def
        example_session_def example_pending_def example_registered_def
        example_two_referrals_def example_two_converted_def)

lemma example_two_stray_step:
  "handleCheckoutSessionCompleted 5 example_session_stray example_two_referrals
     = (Inl (RecordNotFound ''participant''), example_two_referrals)"
  by (simp add: handleCheckoutSessionCompleted_def transaction_def checkout_tx_def
        payment_completed_def example_session_stray_def example_pending_def
        example_registered_def example_two_referrals_def)

section \<open>Properties\<close>

text \<open>
  C1, as the code has it. A webhook event keeps every payment row's id and either leaves
  its status alone or writes the status of its kind: COMPLETED for a checkout-completed
  event, FAILED for a payment-failed event; no event writes PENDING, and an event of any
  other kind leaves the store as it is. Neither handler reads the current status first,
  so a terminal status is not final. A payment-failed event whose payment-intent id
  locates no payment changes nothing; when it locates a payment, that payment becomes
  FAILED whatever its status was, and (payment ids being distinct) every other payment
  row is unchanged. A checkout-completed event whose transaction fails changes nothing;
  when it commits, the payment located by its session id becomes COMPLETED, with the
  event's payment intent, whatever its status was, and every other payment row is
  unchanged.
\<close>

theorem webhook_status_writes:
  "(dispatch now ev s = (r, s') \<longrightarrow> list_all2 (status_step ev) (payments s) (payments s'))
   \<and> (status_written ev0 = None \<longrightarrow> snd (dispatch now ev0 s) = s)
   \<and> (find (\<lambda>p. stripePaymentIntentId p = pi_id stray) (payments s) = None \<longrightarrow>
        dispatch now (PaymentIntentFailed stray) s = (Inr (), s))
   \<and> (find (\<lambda>p. stripePaymentIntentId p = pi_id paymentIntent) (payments s) = Some pay \<longrightarrow>
        (\<exists>p'\<in>set (payments (snd (dispatch now (PaymentIntentFailed paymentIntent) s))).
            pay_id p' = pay_id pay \<and> pay_status p' = FAILED)
        \<and> (distinct (map pay_id (payments s)) \<longrightarrow>
             payments (snd (dispatch now (PaymentIntentFailed paymentIntent) s))
               = map (\<lambda>p. if pay_id p = pay_id pay
                          then p\<lparr>pay_status := FAILED,
                                 failureReason :=
                                   (case last_payment_error paymentIntent of
                                      None \<Rightarrow> failureReason p
                                    | Some message \<Rightarrow> Some message)\<rparr>
                          else p) (payments s)))
   \<and> (dispatch now (CheckoutSessionCompleted session1) s = (Inl e, s2) \<longrightarrow> s2 = s)
   \<and> (dispatch now (CheckoutSessionCompleted session2) s = (Inr u, s3) \<longrightarrow>
        (\<exists>pay2. find (\<lambda>p. stripeSessionId p = session_id session2) (payments s) = Some pay2
           \<and> (\<exists>p'\<in>set (payments s3). pay_id p' = pay_id pay2 \<and> pay_status p' = COMPLETED)
           \<and> (distinct (map pay_id (payments s)) \<longrightarrow>
                payments s3
                  = map (\<lambda>p. if pay_id p = pay_id pay2
                             then p\<lparr>pay_status := COMPLETED,
                                    stripePaymentIntentId := payment_intent session2\<rparr>
                             else p) (payments s))))"
proof (intro conjI impI)
  assume d: "dispatch now ev s = (r, s')"
  show "list_all2 (status_step ev) (payments s) (payments s')"
  proof (cases ev)
    case (CheckoutSessionCompleted session)
    with d show ?thesis by (simp add: checkout_status_step)
  next
    case (PaymentIntentFailed paymentIntent)
    with d show ?thesis by (simp add: failed_status_step)
  next
    case (PaymentIntentSucceeded paymentIntent)
    with d show ?thesis by (auto simp: handlePaymentIntentSucceeded_def status_step_refl)
  next
    case (InvoicePaymentSucceeded i)
    with d show ?thesis by (auto simp: status_step_refl)
  next
    case (OtherEvent k)
    with d show ?thesis by (auto simp: status_step_refl)
  qed
next
  assume "status_written ev0 = None"
  then show "snd (dispatch now ev0 s) = s"
    by (cases ev0) (simp_all add: handlePaymentIntentSucceeded_def)
next
  assume "find (\<lambda>p. stripePaymentIntentId p = pi_id stray) (payments s) = None"
  then show "dispatch now (PaymentIntentFailed stray) s = (Inr (), s)"
    by (simp add: failed_none)
next
  assume "find (\<lambda>p. stripePaymentIntentId p = pi_id paymentIntent) (payments s) = Some pay"
  from failed_overwrites [OF this]
  show "\<exists>p'\<in>set (payments (snd (dispatch now (PaymentIntentFailed paymentIntent) s))).
            pay_id p' = pay_id pay \<and> pay_status p' = FAILED" by simp
next
  assume f: "find (\<lambda>p. stripePaymentIntentId p = pi_id paymentIntent) (payments s) = Some pay"
    and d: "distinct (map pay_id (payments s))"
  from failed_payments_exact [OF f d]
  show "payments (snd (dispatch now (PaymentIntentFailed paymentIntent) s))
               = map (\<lambda>p. if pay_id p = pay_id pay
                          then p\<lparr>pay_status := FAILED,
                                 failureReason :=
                                   (case last_payment_error paymentIntent of
                                      None \<Rightarrow> failureReason p
                                    | Some message \<Rightarrow> Some message)\<rparr>
                          else p) (payments s)"
    by (simp add: payment_failed_def)
next
  assume "dispatch now (CheckoutSessionCompleted session1) s = (Inl e, s2)"
  then have "handleCheckoutSessionCompleted now session1 s = (Inl e, s2)" by simp
  from handle_checkout_Inl [OF this] show "s2 = s" .
next
  assume "dispatch now (CheckoutSessionCompleted session2) s = (Inr u, s3)"
  then have "handleCheckoutSessionCompleted now session2 s = (Inr u, s3)" by simp
  from handle_checkout_Inr [OF this] obtain md where
    tx: "checkout_tx now session2 md s = Inr ((), s3)" by blast
  from checkout_tx_tables [OF tx] obtain pay2 :: payment where
    f: "find (\<lambda>p. stripeSessionId p = session_id session2) (payments s) = Some pay2"
    and up: "update_where (\<lambda>p. pay_id p = pay_id pay2) (payment_completed session2) (payments s)
            = Some (payments s3)" by blast
  from f have pin: "pay2 \<in> set (payments s)" by (rule find_SomeD)
  from update_where_mem [OF up] obtain x where "pay_id x = pay_id pay2"
    "payment_completed session2 x \<in> set (payments s3)" by blast
  then have c: "\<exists>p'\<in>set (payments s3). pay_id p' = pay_id pay2
      \<and> pay_status p' = COMPLETED"
    by (intro bexI [of _ "payment_completed session2 x"]) (simp_all add: payment_completed_def)
  have "payments s3
          = map (\<lambda>p. if pay_id p = pay_id pay2
                     then p\<lparr>pay_status := COMPLETED,
                            stripePaymentIntentId := payment_intent session2\<rparr>
                     else p) (payments s)"
    if "distinct (map pay_id (payments s))"
    using update_where_key_map [OF that pin up] by (simp add: payment_completed_def)
  with f c
  show "\<exists>pay2. find (\<lambda>p. stripeSessionId p = session_id session2) (payments s) = Some pay2
           \<and> (\<exists>p'\<in>set (payments s3). pay_id p' = pay_id pay2 \<and> pay_status p' = COMPLETED)
           \<and> (distinct (map pay_id (payments s)) \<longrightarrow>
                payments s3
                  = map (\<lambda>p. if pay_id p = pay_id pay2
                             then p\<lparr>pay_status := COMPLETED,
                                    stripePaymentIntentId := payment_intent session2\<rparr>
                             else p) (payments s))"
    by blast
qed

theorem webhook_status_writes_witness:
  "map pay_status (payments example_two_payments) = [COMPLETED, PENDING]
   \<and> map stripePaymentIntentId (payments example_two_payments) = [pi_id example_intent, ''pending'']
   \<and> distinct (map pay_id (payments example_two_payments))
   \<and> fst (dispatch 6 (PaymentIntentFailed example_intent) example_two_payments) = Inr ()
   \<and> map pay_status (payments (snd (dispatch 6 (PaymentIntentFailed example_intent)
                                      example_two_payments))) = [FAILED, PENDING]
   \<and> snd (dispatch 6 (OtherEvent ''customer.created'') example_two_payments)
       = example_two_payments
   \<and> dispatch 6 (PaymentIntentFailed \<lparr>pi_id = ''pi_404'', last_payment_error = None\<rparr>)
         example_two_payments = (Inr (), example_two_payments)
   \<and> dispatch 6 (CheckoutSessionCompleted example_session_stray) example_two_payments
       = (Inl (RecordNotFound ''participant''), example_two_payments)
   \<and> fst (dispatch 6 (CheckoutSessionCompleted example_session) example_two_payments) = Inr ()
   \<and> map pay_status (payments (snd (dispatch 6 (CheckoutSessionCompleted example_session)
                                      example_two_payments))) = [COMPLETED, PENDING]"
  using webhook_status_writes
    [where now = 6 and ev = "PaymentIntentFailed example_intent" and s = example_two_payments
       and r = "Inr ()"
       and s' = "snd (dispatch 6 (PaymentIntentFailed example_intent) example_two_payments)"
       and ?ev0.0 = "OtherEvent ''customer.created''"
       and stray = "\<lparr>pi_id = ''pi_404'', last_payment_error = None\<rparr>"
       and paymentIntent = example_intent
       and pay = "\<lparr>pay_id = 1, pay_userId = 2, pay_participantId = 1,
                    stripeSessionId = ''cs_test_1'', stripePaymentIntentId = ''pi_1'',
                    amount = 99, currency = ''usd'', pay_tier = PREMIUM,
                    pay_status = COMPLETED, failureReason = None,
                    pay_referralCode = Some ''REFABC123''\<rparr>"
       and ?session1.0 = example_session_stray and e = "RecordNotFound ''participant''"
       and ?s2.0 = example_two_payments
       and ?session2.0 = example_session and u = "()"
       and ?s3.0 = "snd (dispatch 6 (CheckoutSessionCompleted example_session)
                          example_two_payments)"]
  by (simp add: example_two_payments_def example_completed_def example_pending_def
        example_registered_def example_intent_def example_session_def
        example_session_stray_def handlePaymentIntentFailed_def payment_failed_def
        auditLog_create_def new_id_def json_field_def handleCheckoutSessionCompleted_def
        transaction_def checkout_tx_def process_referral_def referral_open_def
        payment_completed_def participant_activated_def)

text \<open>
  C1 as stated fails. The store \<open>example_completed\<close> is reached by a registration,
  a checkout session and its checkout-completed event; there the payment is COMPLETED. A
  payment-failed event carrying the payment intent of that payment then makes it FAILED,
  and the checkout-completed event, delivered once more, makes it COMPLETED again.
\<close>

theorem terminal_status_overwritten:
  "snd (handleCheckoutSessionCompleted 5 example_session
          (snd (create_session example_provider 2 example_body None None
             (snd (register_participant example_registration None None example_store)))))
     = example_completed
   \<and> map pay_status (payments example_completed) = [COMPLETED]
   \<and> map pay_status (payments (snd (dispatch 6 (PaymentIntentFailed example_intent)
                                      example_completed))) = [FAILED]
   \<and> map pay_status
         (payments (snd (dispatch 7 (CheckoutSessionCompleted example_session)
                           (snd (dispatch 6 (PaymentIntentFailed example_intent)
                                   example_completed))))) = [COMPLETED]"
  by (simp add: example_register_step example_create_step example_complete_step)
    (simp add: example_completed_def example_pending_def example_registered_def
        example_intent_def example_session_def handlePaymentIntentFailed_def
        payment_failed_def auditLog_create_def new_id_def json_field_def
        handleCheckoutSessionCompleted_def transaction_def checkout_tx_def
        process_referral_def referral_open_def payment_completed_def
        participant_activated_def)

text \<open>
  C2, as the code has it. Let a checkout-completed event be processed successfully, in a
  store whose referral ids are distinct and which holds at most one unconverted referral
  for the event's customer e-mail and referral code. Processing the same event again, in
  the store the first processing produced, succeeds again and changes nothing in the
  payments, participants, referrals and promoters (so there is still one COMPLETED
  payment, one ACTIVE participant, no further conversion and no further counter change),
  but it is not a no-op: it appends one more PAYMENT_COMPLETED audit entry. The handler
  writes the transition again without reading the payment's status. Both conditions on
  the store hold in every store that registrations, checkout sessions and webhook events
  reach from a store whose referrals have distinct ids and distinct e-mail addresses, each
  the address of a user (\<open>reachable_referrals\<close>, \<open>checkout_redelivery_reachable\<close>): from the
  empty store, and from \<open>example_store\<close>, whose approved promoter lets a registration
  create a referral (\<open>referrals_ok_start\<close>, \<open>example_reachable\<close>).
\<close>

theorem checkout_redelivery:
  assumes "handleCheckoutSessionCompleted now session s = (Inr u, s1)"
    and "session_metadata session = Some md"
    and "distinct (map ref_id (referrals s))"
    and "length (filter (referral_open session md) (referrals s)) \<le> 1"
  shows "\<exists>entry. handleCheckoutSessionCompleted now' session s1
                  = (Inr (), s1\<lparr>auditLogs := auditLogs s1 @ [entry]\<rparr>)
           \<and> action entry = ''PAYMENT_COMPLETED'' \<and> entityType entry = ''PAYMENT''"
proof -
  from handle_checkout_Inr [OF assms(1)] assms(2)
  have "checkout_tx now session md s = Inr ((), s1)" by auto
  from checkout_tx_again [OF this assms(3,4), of now'] assms(2) show ?thesis
    by (auto simp: handleCheckoutSessionCompleted_def transaction_def)
qed

theorem checkout_redelivery_witness:
  "handleCheckoutSessionCompleted 5 example_session example_pending
     = (Inr (), example_completed)
   \<and> distinct (map ref_id (referrals example_pending))
   \<and> length (filter (referral_open example_session
                        \<lparr>md_participantId = 1, md_userId = 2, md_tier = PREMIUM,
                         md_referralCode = ''REFABC123''\<rparr>) (referrals example_pending)) = 1
   \<and> (\<exists>entry. handleCheckoutSessionCompleted 8 example_session example_completed
                  = (Inr (), example_completed
                       \<lparr>auditLogs := auditLogs example_completed @ [entry]\<rparr>)
          \<and> action entry = ''PAYMENT_COMPLETED'' \<and> entityType entry = ''PAYMENT'')"
  using checkout_redelivery
    [where now = 5 and session = example_session and s = example_pending and u = "()"
       and ?s1.0 = example_completed and now' = 8
       and md = "\<lparr>md_participantId = 1, md_userId = 2, md_tier = PREMIUM,
                  md_referralCode = ''REFABC123''\<rparr>"]
    example_complete_step
  by (simp add: example_session_def example_pending_def example_registered_def
        referral_open_def)

text \<open>
  C2 as stated fails: the second processing of the same event is not a no-op. It
  appends a second PAYMENT_COMPLETED audit entry, so the store after it differs from the
  store after the first processing.
\<close>

theorem redelivery_not_noop:
  "handleCheckoutSessionCompleted 5 example_session example_pending
     = (Inr (), example_completed)
   \<and> snd (handleCheckoutSessionCompleted 5 example_session example_completed)
       \<noteq> example_completed
   \<and> map action (auditLogs example_completed)
       = [''PARTICIPANT_REGISTER'', ''PAYMENT_SESSION_CREATED'', ''PAYMENT_COMPLETED'']
   \<and> map action
         (auditLogs (snd (handleCheckoutSessionCompleted 5 example_session example_completed)))
       = [''PARTICIPANT_REGISTER'', ''PAYMENT_SESSION_CREATED'', ''PAYMENT_COMPLETED'',
          ''PAYMENT_COMPLETED'']"
  by (simp add: example_complete_step)
    (simp add: example_completed_def example_pending_def example_registered_def
        example_session_def handleCheckoutSessionCompleted_def transaction_def
        checkout_tx_def process_referral_def referral_open_def payment_completed_def
        participant_activated_def auditLog_create_def new_id_def)

text \<open>
  C3, as the code has it. \<open>totalRevenue\<close> is incremented only by a referral conversion in
  the checkout-completed transaction, by the referral's commission. \<open>totalReferrals\<close> is
  incremented by one there too, and also by one at every successful registration that
  supplies the promoter's referral code. No other operation changes either counter. So
  over any run of registrations, checkout sessions and webhook events, \<open>totalReferrals\<close>
  of a promoter grows by the number of registrations attributed to it plus the number of
  its conversions, and \<open>totalRevenue\<close> grows by the sum of the commissions of its
  conversions.
\<close>

theorem promoter_counters_run:
  assumes "run ops s = Some s'"
  shows "fst (counters p s')
           = fst (counters p s) + int (registrations_for p ops s)
             + int (length (conversions_for p ops s))
       \<and> snd (counters p s')
           = snd (counters p s) + sum_list (map commission (conversions_for p ops s))"
  using assms
proof (induction ops arbitrary: s)
  case Nil
  then show ?case by simp
next
  case (Cons a ops)
  from Cons.prems obtain s1 where a: "step a s = Some s1" and r: "run ops s1 = Some s'"
    by (auto split: option.splits)
  from Cons.IH [OF r] step_counters [OF a, of p] a show ?case by simp
qed

theorem promoter_counters_run_witness:
  "map_option (counters 1) (run example_ops example_commissioned) = Some (3, 10)
   \<and> counters 1 example_commissioned = (1, 0)
   \<and> registrations_for 1 example_ops example_commissioned = 1
   \<and> map commission (conversions_for 1 example_ops example_commissioned) = [10]"
proof -
  have c0: "counters 1 example_commissioned = (1, 0)" by code_simp
  have rg: "registrations_for 1 example_ops example_commissioned = 1" by code_simp
  have cv: "map commission (conversions_for 1 example_ops example_commissioned) = [10]"
    by code_simp
  have "Option.is_none (run example_ops example_commissioned) = False" by code_simp
  then obtain sf where sf: "run example_ops example_commissioned = Some sf"
    by (auto simp: Option.is_none_def)
  from cv have ln: "length (conversions_for 1 example_ops example_commissioned) = 1"
    and sm: "sum_list (map commission (conversions_for 1 example_ops example_commissioned)) = 10"
    by (simp_all flip: length_map [of commission])
  from promoter_counters_run [OF sf, of 1] c0 rg ln sm have "counters 1 sf = (3, 10)"
    by (simp add: prod_eq_iff)
  with sf c0 rg cv show ?thesis by simp
qed

text \<open>
  C3 as stated fails: a registration with a valid referral code increments
  \<open>totalReferrals\<close> although nothing has been converted, and after the one conversion
  that follows the counter is 2.
\<close>

theorem registration_increments_totalReferrals:
  "register_participant example_registration None None example_store
     = (Inr \<lparr>rg_id = 1, rg_email = ''alice@example.com'', rg_tier = PREMIUM,
              rg_status = PARTICIPANT_PENDING, rg_needsPayment = True\<rparr>, example_registered)
   \<and> map totalReferrals (promoters example_store) = [0]
   \<and> map totalReferrals (promoters example_registered) = [1]
   \<and> filter isConverted (referrals example_registered) = []
   \<and> snd (create_session example_provider 2 example_body None None example_registered)
       = example_pending
   \<and> handleCheckoutSessionCompleted 5 example_session example_pending
       = (Inr (), example_completed)
   \<and> map totalReferrals (promoters example_completed) = [2]
   \<and> length (filter isConverted (referrals example_completed)) = 1"
  by (simp add: example_register_step example_create_step example_complete_step)
    (simp add: example_store_def example_registered_def example_pending_def
       example_completed_def)



text \<open>
  C5. When the signature check of an inbound webhook request fails, the reply has
  status 400 and carries the check's message, and the store is the one the request
  found: no table is written.
\<close>

theorem signature_failure_rejected:
  assumes "constructEvent (raw_body req) (stripe_signature req) endpointSecret = Inl msg"
  shows "stripe_webhook constructEvent endpointSecret now req s =
           (\<lparr>status = 400, reply = WebhookError (''Webhook Error: '' @ msg)\<rparr>, s)"
  using assms by (simp add: stripe_webhook_def)

theorem signature_failure_rejected_witness:
  "example_verify (raw_body \<lparr>raw_body = ''{}'', stripe_signature = ''t=1,v1=bad''\<rparr>)
       (stripe_signature \<lparr>raw_body = ''{}'', stripe_signature = ''t=1,v1=bad''\<rparr>) ''whsec_test''
     = Inl ''No signatures found matching the expected signature for payload''
   \<and> stripe_webhook example_verify ''whsec_test'' 7
        \<lparr>raw_body = ''{}'', stripe_signature = ''t=1,v1=bad''\<rparr> example_store
     = (\<lparr>status = 400,
         reply = WebhookError (''Webhook Error: '' @
                   ''No signatures found matching the expected signature for payload'')\<rparr>,
        example_store)"
  using signature_failure_rejected
    [where constructEvent = example_verify and endpointSecret = "''whsec_test''"
       and req = "\<lparr>raw_body = ''{}'', stripe_signature = ''t=1,v1=bad''\<rparr>"
       and now = 7 and s = example_store]
  by (simp add: example_verify_def)

text \<open>
  C6. A request to create a checkout session for a participant who already has a
  COMPLETED payment of the requested tier is answered with a client error (a status from
  400 to 499) and the store is left as it was: no payment row, no provider session and no
  audit entry is added. When the participant exists and belongs to the caller, and the
  tier is a paid one, the error is the 400 of the duplicate-purchase guard. The body is
  one whose two urls and participant id pass the format checks of the schema, which
  \<open>create_session\<close> takes as given: a body that fails them is refused with the schema's
  400 before the guard is reached, the store unchanged all the same.
\<close>

theorem duplicate_purchase_rejected:
  assumes "p \<in> set (payments s)" and "pay_participantId p = cs_participantId body"
    and "pay_tier p = cs_tier body" and "pay_status p = COMPLETED"
  shows "(\<exists>msg code. create_session stripeCreate uid body ip ua s = (Inl (AppError msg code), s)
            \<and> 400 \<le> code \<and> code < 500)
       \<and> (cs_tier body \<noteq> FREE \<longrightarrow>
            find (\<lambda>q. part_id q = cs_participantId body) (participants s) = Some part \<longrightarrow>
            part_userId part = uid \<longrightarrow>
            create_session stripeCreate uid body ip ua s
              = (Inl (AppError ''Payment already completed for this tier'' 400), s))"
proof -
  have guard: "find (\<lambda>x. pay_participantId x = part_id q \<and> pay_tier x = cs_tier body
                      \<and> pay_status x = COMPLETED) (payments s) \<noteq> None"
    if "find (\<lambda>q. part_id q = cs_participantId body) (participants s) = Some q" for q
  proof -
    from that have "part_id q = cs_participantId body" by (rule find_Some_holds)
    with assms show ?thesis by (intro find_witness_not_None [of p]) simp_all
  qed
  show ?thesis
  proof (cases "cs_tier body = FREE")
    case True
    then show ?thesis by (simp add: create_session_def)
  next
    case paid: False
    show ?thesis
    proof (cases "find (\<lambda>q. part_id q = cs_participantId body) (participants s)")
      case None
      with paid show ?thesis by (simp add: create_session_def)
    next
      case (Some q)
      from guard [OF Some] obtain e where
        e: "find (\<lambda>x. pay_participantId x = part_id q \<and> pay_tier x = cs_tier body
                      \<and> pay_status x = COMPLETED) (payments s) = Some e" by blast
      show ?thesis
      proof (cases "part_userId q = uid")
        case True
        with paid Some e have
          "create_session stripeCreate uid body ip ua s
             = (Inl (AppError ''Payment already completed for this tier'' 400), s)"
          by (simp add: create_session_def)
        then show ?thesis by simp
      next
        case False
        with paid Some have
          "create_session stripeCreate uid body ip ua s
             = (Inl (AppError ''Unauthorized access to participant record'' 403), s)"
          by (simp add: create_session_def)
        with Some False show ?thesis by auto
      qed
    qed
  qed
qed

theorem duplicate_purchase_rejected_witness:
  "map pay_participantId (payments example_completed) = [1]
   \<and> map pay_tier (payments example_completed) = [PREMIUM]
   \<and> map pay_status (payments example_completed) = [COMPLETED]
   \<and> cs_participantId example_body = 1 \<and> cs_tier example_body = PREMIUM
   \<and> create_session example_provider 2 example_body None None example_completed
       = (Inl (AppError ''Payment already completed for this tier'' 400), example_completed)"
  using duplicate_purchase_rejected
    [where s = example_completed and body = example_body and stripeCreate = example_provider
       and uid = 2 and ip = None and ua = None
       and p = "\<lparr>pay_id = 1, pay_userId = 2, pay_participantId = 1,
                  stripeSessionId = ''cs_test_1'', stripePaymentIntentId = ''pi_1'',
                  amount = 99, currency = ''usd'', pay_tier = PREMIUM,
                  pay_status = COMPLETED, failureReason = None,
                  pay_referralCode = Some ''REFABC123''\<rparr>"
       and part = "\<lparr>part_id = 1, part_userId = 2, part_tier = PREMIUM,
                    part_status = ACTIVE, referredBy = Some ''REFABC123''\<rparr>"]
  by (simp add: example_completed_def example_pending_def example_registered_def
        example_body_def)

text \<open>
  C7. A payment-failed event whose payment-intent id is the id of no payment row leaves
  the store as it was, and the provider still gets the acknowledgment
  \<open>200 {received: true}\<close>.
\<close>

theorem payment_failed_unmatched_noop:
  assumes "constructEvent (raw_body req) (stripe_signature req) endpointSecret
             = Inr (PaymentIntentFailed paymentIntent)"
    and "\<forall>p\<in>set (payments s). stripePaymentIntentId p \<noteq> pi_id paymentIntent"
  shows "stripe_webhook constructEvent endpointSecret now req s
           = (\<lparr>status = 200, reply = Received\<rparr>, s)"
proof -
  from assms(2) have "find (\<lambda>p. stripePaymentIntentId p = pi_id paymentIntent) (payments s) = None"
    by (simp add: find_None_iff)
  then have "handlePaymentIntentFailed paymentIntent s = (Inr (), s)"
    by (simp add: handlePaymentIntentFailed_def)
  with assms(1) show ?thesis by (simp add: stripe_webhook_def)
qed

theorem payment_failed_unmatched_noop_witness:
  "example_verify (raw_body \<lparr>raw_body = ''{}'', stripe_signature = ''t=1,v1=good''\<rparr>)
       (stripe_signature \<lparr>raw_body = ''{}'', stripe_signature = ''t=1,v1=good''\<rparr>) ''whsec_test''
     = Inr (PaymentIntentFailed \<lparr>pi_id = ''pi_404'', last_payment_error = Some ''card_declined''\<rparr>)
   \<and> list_all (\<lambda>p. stripePaymentIntentId p \<noteq> ''pi_404'') (payments example_completed)
   \<and> payments example_completed \<noteq> []
   \<and> stripe_webhook example_verify ''whsec_test'' 7
        \<lparr>raw_body = ''{}'', stripe_signature = ''t=1,v1=good''\<rparr> example_completed
     = (\<lparr>status = 200, reply = Received\<rparr>, example_completed)"
  using payment_failed_unmatched_noop
    [where constructEvent = example_verify and endpointSecret = "''whsec_test''"
       and req = "\<lparr>raw_body = ''{}'', stripe_signature = ''t=1,v1=good''\<rparr>"
       and paymentIntent = "\<lparr>pi_id = ''pi_404'', last_payment_error = Some ''card_declined''\<rparr>"
       and now = 7 and s = example_completed]
  by (simp add: example_verify_def example_completed_def example_pending_def example_registered_def)

text \<open>
  C8, as the code has it. A registration that supplies a valid referral code appends one
  referral row for the code's promoter and the registrant's e-mail, with no payment id,
  and its \<open>isConverted\<close> is false for the paid tiers PREMIUM and VIP but true for the tier
  FREE. An unconverted referral is converted only by the checkout-completed transaction:
  registration only appends rows, creating a checkout session and the other webhook events
  leave the referrals as they are, and a checkout-completed transaction that fails leaves
  them as they are. One that commits (in a store with distinct referral ids) completes
  the payment located by its session id and converts exactly one row, the first
  unconverted referral whose e-mail is the event's customer e-mail and whose code is the
  metadata's referral code, stamping it with the time and the id of that payment; every
  other referral row is unchanged, and when the code is empty or no such referral exists
  no row changes.
\<close>

theorem referral_created_unconverted:
  "(register_participant d ip ua s0 = (Inr res, s1) \<longrightarrow>
    referredByPromoter d s0 = Inr (Some p) \<longrightarrow>
      (\<exists>rf. referrals s1 = referrals s0 @ [rf] \<and> promoterId rf = prom_id p
          \<and> participantEmail rf = reg_email d \<and> reg_referralCode d = Some (referralCode rf)
          \<and> isConverted rf = (reg_tier d = FREE) \<and> ref_paymentId rf = None))
   \<and> (\<exists>new. referrals (snd (register_participant d ip ua s)) = referrals s @ new)
   \<and> referrals (snd (create_session stripeCreate uid body ip ua s)) = referrals s
   \<and> referrals (snd (handlePaymentIntentFailed paymentIntent s)) = referrals s
   \<and> referrals (snd (handlePaymentIntentSucceeded paymentIntent s)) = referrals s
   \<and> (handleCheckoutSessionCompleted now session1 s = (Inl e, s2) \<longrightarrow> referrals s2 = referrals s)
   \<and> (distinct (map ref_id (referrals s)) \<longrightarrow>
      handleCheckoutSessionCompleted now session2 s = (Inr u, s3) \<longrightarrow>
        (\<exists>md pay. session_metadata session2 = Some md
           \<and> find (\<lambda>p. stripeSessionId p = session_id session2) (payments s) = Some pay
           \<and> (\<exists>p'\<in>set (payments s3). pay_id p' = pay_id pay \<and> pay_status p' = COMPLETED)
           \<and> ((md_referralCode md = []
                 \<or> find (referral_open session2 md) (referrals s) = None) \<longrightarrow>
                referrals s3 = referrals s)
           \<and> (\<forall>rf. md_referralCode md \<noteq> [] \<longrightarrow>
                  find (referral_open session2 md) (referrals s) = Some rf \<longrightarrow>
                    rf \<in> set (referrals s)
                  \<and> participantEmail rf = customer_email session2
                  \<and> referralCode rf = md_referralCode md \<and> \<not> isConverted rf
                  \<and> referrals s3
                      = map (\<lambda>x. if ref_id x = ref_id rf
                                 then x\<lparr>isConverted := True, convertedAt := Some now,
                                        ref_paymentId := Some (pay_id pay)\<rparr>
                                 else x) (referrals s))))"
proof (intro conjI impI)
  assume reg: "register_participant d ip ua s0 = (Inr res, s1)"
    and rp: "referredByPromoter d s0 = Inr (Some p)"
  from register_participant_Inr [OF reg] rp obtain tx2 tx3 where
    r2: "referrals tx2 = referrals s0"
    and rr: "register_referral d (Some p) tx2 = Inr tx3"
    and r1: "referrals s1 = referrals tx3" by auto
  from referredByPromoter_Some [OF rp] obtain c where c: "reg_referralCode d = Some c" by blast
  from register_referral_Some [OF rr] r2 r1 c
  show "\<exists>rf. referrals s1 = referrals s0 @ [rf] \<and> promoterId rf = prom_id p
          \<and> participantEmail rf = reg_email d \<and> reg_referralCode d = Some (referralCode rf)
          \<and> isConverted rf = (reg_tier d = FREE) \<and> ref_paymentId rf = None"
    by (auto simp: or_empty_def)
next
  show "\<exists>new. referrals (snd (register_participant d ip ua s)) = referrals s @ new"
    by (rule register_participant_referrals)
next
  show "referrals (snd (create_session stripeCreate uid body ip ua s)) = referrals s"
    by (simp add: create_session_referrals)
next
  show "referrals (snd (handlePaymentIntentFailed paymentIntent s)) = referrals s"
    by (simp add: failed_frame)
next
  show "referrals (snd (handlePaymentIntentSucceeded paymentIntent s)) = referrals s"
    by (simp add: handlePaymentIntentSucceeded_def)
next
  assume "handleCheckoutSessionCompleted now session1 s = (Inl e, s2)"
  from handle_checkout_Inl [OF this] show "referrals s2 = referrals s" by simp
next
  assume d: "distinct (map ref_id (referrals s))"
    and h: "handleCheckoutSessionCompleted now session2 s = (Inr u, s3)"
  from handle_checkout_Inr [OF h] obtain md where md: "session_metadata session2 = Some md"
    and tx: "checkout_tx now session2 md s = Inr ((), s3)" by blast
  from checkout_tx_tables [OF tx] obtain pay :: payment where
    f: "find (\<lambda>p. stripeSessionId p = session_id session2) (payments s) = Some pay"
    and up: "update_where (\<lambda>p. pay_id p = pay_id pay) (payment_completed session2) (payments s)
            = Some (payments s3)"
    and cs: "((md_referralCode md = [] \<or> find (referral_open session2 md) (referrals s) = None)
              \<and> referrals s3 = referrals s \<and> promoters s3 = promoters s)
          \<or> (md_referralCode md \<noteq> []
              \<and> (\<exists>rf. find (referral_open session2 md) (referrals s) = Some rf
                    \<and> update_where (\<lambda>x. ref_id x = ref_id rf) (referral_converted now pay)
                         (referrals s) = Some (referrals s3)
                    \<and> update_where (\<lambda>x. prom_id x = promoterId rf) (promoter_credited rf)
                         (promoters s) = Some (promoters s3)))"
    by blast
  from update_where_mem [OF up] obtain x where "pay_id x = pay_id pay"
    "payment_completed session2 x \<in> set (payments s3)" by blast
  then have c: "\<exists>p'\<in>set (payments s3). pay_id p' = pay_id pay \<and> pay_status p' = COMPLETED"
    by (intro bexI [of _ "payment_completed session2 x"]) (simp_all add: payment_completed_def)
  from cs have k: "(md_referralCode md = []
                 \<or> find (referral_open session2 md) (referrals s) = None) \<longrightarrow>
                referrals s3 = referrals s" by auto
  have v: "\<forall>rf. md_referralCode md \<noteq> [] \<longrightarrow>
                  find (referral_open session2 md) (referrals s) = Some rf \<longrightarrow>
                    rf \<in> set (referrals s)
                  \<and> participantEmail rf = customer_email session2
                  \<and> referralCode rf = md_referralCode md \<and> \<not> isConverted rf
                  \<and> referrals s3
                      = map (\<lambda>x. if ref_id x = ref_id rf
                                 then x\<lparr>isConverted := True, convertedAt := Some now,
                                        ref_paymentId := Some (pay_id pay)\<rparr>
                                 else x) (referrals s)"
  proof (intro allI impI)
    fix rf
    assume ne: "md_referralCode md \<noteq> []"
      and fr: "find (referral_open session2 md) (referrals s) = Some rf"
    from fr have rin: "rf \<in> set (referrals s)" and ro: "referral_open session2 md rf"
      by (auto dest: find_SomeD find_Some_holds)
    from cs ne fr have ur:
      "update_where (\<lambda>x. ref_id x = ref_id rf) (referral_converted now pay) (referrals s)
         = Some (referrals s3)" by auto
    from update_where_key_map [OF d rin ur] have
      "referrals s3 = map (\<lambda>x. if ref_id x = ref_id rf
                                 then x\<lparr>isConverted := True, convertedAt := Some now,
                                        ref_paymentId := Some (pay_id pay)\<rparr>
                                 else x) (referrals s)"
      by (simp add: referral_converted_def)
    with rin ro show "rf \<in> set (referrals s)
                  \<and> participantEmail rf = customer_email session2
                  \<and> referralCode rf = md_referralCode md \<and> \<not> isConverted rf
                  \<and> referrals s3
                      = map (\<lambda>x. if ref_id x = ref_id rf
                                 then x\<lparr>isConverted := True, convertedAt := Some now,
                                        ref_paymentId := Some (pay_id pay)\<rparr>
                                 else x) (referrals s)"
      by (simp add: referral_open_def)
  qed
  from md f c k v
  show "\<exists>md pay. session_metadata session2 = Some md
           \<and> find (\<lambda>p. stripeSessionId p = session_id session2) (payments s) = Some pay
           \<and> (\<exists>p'\<in>set (payments s3). pay_id p' = pay_id pay \<and> pay_status p' = COMPLETED)
           \<and> ((md_referralCode md = []
                 \<or> find (referral_open session2 md) (referrals s) = None) \<longrightarrow>
                referrals s3 = referrals s)
           \<and> (\<forall>rf. md_referralCode md \<noteq> [] \<longrightarrow>
                  find (referral_open session2 md) (referrals s) = Some rf \<longrightarrow>
                    rf \<in> set (referrals s)
                  \<and> participantEmail rf = customer_email session2
                  \<and> referralCode rf = md_referralCode md \<and> \<not> isConverted rf
                  \<and> referrals s3
                      = map (\<lambda>x. if ref_id x = ref_id rf
                                 then x\<lparr>isConverted := True, convertedAt := Some now,
                                        ref_paymentId := Some (pay_id pay)\<rparr>
                                 else x) (referrals s))"
    by (intro exI [of _ md] exI [of _ pay] conjI) assumption+
qed

theorem referral_created_unconverted_witness:
  "register_participant example_registration None None example_store
     = (Inr \<lparr>rg_id = 1, rg_email = ''alice@example.com'', rg_tier = PREMIUM,
              rg_status = PARTICIPANT_PENDING, rg_needsPayment = True\<rparr>, example_registered)
   \<and> referredByPromoter example_registration example_store
     = Inr (Some \<lparr>prom_id = 1, prom_userId = 1, prom_status = PROMOTER_APPROVED,
                   prom_referralCode = ''REFABC123'', totalReferrals = 0, totalRevenue = 0\<rparr>)
   \<and> referrals example_store = []
   \<and> map isConverted (referrals example_registered) = [False]
   \<and> handleCheckoutSessionCompleted 5 example_session_stray example_two_referrals
     = (Inl (RecordNotFound ''participant''), example_two_referrals)
   \<and> distinct (map ref_id (referrals example_two_referrals))
   \<and> map participantEmail (referrals example_two_referrals)
       = [customer_email example_session, ''bob@example.com'']
   \<and> map isConverted (referrals example_two_referrals) = [False, False]
   \<and> handleCheckoutSessionCompleted 5 example_session example_two_referrals
       = (Inr (), example_two_converted)
   \<and> map isConverted (referrals example_two_converted) = [True, False]
   \<and> map ref_paymentId (referrals example_two_converted) = [Some 1, None]
   \<and> map pay_status (payments example_two_converted) = [COMPLETED]"
proof -
  note all = referral_created_unconverted
    [where d = example_registration and ip = None and ua = None and ?s0.0 = example_store
       and res = "\<lparr>rg_id = 1, rg_email = ''alice@example.com'', rg_tier = PREMIUM,
                   rg_status = PARTICIPANT_PENDING, rg_needsPayment = True\<rparr>"
       and ?s1.0 = example_registered
       and p = "\<lparr>prom_id = 1, prom_userId = 1, prom_status = PROMOTER_APPROVED,
                 prom_referralCode = ''REFABC123'', totalReferrals = 0, totalRevenue = 0\<rparr>"
       and s = example_two_referrals and now = 5 and ?session1.0 = example_session_stray
       and e = "RecordNotFound ''participant''" and ?s2.0 = example_two_referrals
       and ?session2.0 = example_session and u = "()"
       and ?s3.0 = example_two_converted]
  note created = all [THEN conjunct1]
  note committed = all [THEN conjunct2, THEN conjunct2, THEN conjunct2, THEN conjunct2,
                        THEN conjunct2, THEN conjunct2]
  have rb: "referredByPromoter example_registration example_store
     = Inr (Some \<lparr>prom_id = 1, prom_userId = 1, prom_status = PROMOTER_APPROVED,
                   prom_referralCode = ''REFABC123'', totalReferrals = 0, totalRevenue = 0\<rparr>)"
    by (simp add: referredByPromoter_def example_registration_def example_store_def)
  have r0: "referrals example_store = []" by (simp add: example_store_def)
  from created [rule_format, OF example_register_step rb] obtain rf where
    "referrals example_registered = referrals example_store @ [rf]"
    "isConverted rf = (reg_tier example_registration = FREE)" by blast
  then have c1: "map isConverted (referrals example_registered) = [False]"
    by (simp add: r0 example_registration_def)
  have rs: "referrals example_two_referrals
      = [\<lparr>ref_id = 1, promoterId = 1, participantEmail = ''alice@example.com'',
          referralCode = ''REFABC123'', ref_tier = PREMIUM, commission = 10,
          isConverted = False, convertedAt = None, ref_paymentId = None\<rparr>,
         \<lparr>ref_id = 2, promoterId = 2, participantEmail = ''bob@example.com'',
          referralCode = ''REFXYZ789'', ref_tier = VIP, commission = 30,
          isConverted = False, convertedAt = None, ref_paymentId = None\<rparr>]"
    by (simp add: example_two_referrals_def)
  have d: "distinct (map ref_id (referrals example_two_referrals))" by (simp add: rs)
  from committed [rule_format, OF d example_two_step] obtain md and pay :: payment where
    md: "session_metadata example_session = Some md"
    and f: "find (\<lambda>p. stripeSessionId p = session_id example_session)
              (payments example_two_referrals) = Some pay"
    and c: "\<forall>rf. md_referralCode md \<noteq> [] \<longrightarrow>
              find (referral_open example_session md) (referrals example_two_referrals)
                = Some rf \<longrightarrow>
              rf \<in> set (referrals example_two_referrals)
              \<and> participantEmail rf = customer_email example_session
              \<and> referralCode rf = md_referralCode md \<and> \<not> isConverted rf
              \<and> referrals example_two_converted
                  = map (\<lambda>x. if ref_id x = ref_id rf
                             then x\<lparr>isConverted := True, convertedAt := Some 5,
                                    ref_paymentId := Some (pay_id pay)\<rparr>
                             else x) (referrals example_two_referrals)"
    by blast
  from md have mdv: "md = \<lparr>md_participantId = 1, md_userId = 2, md_tier = PREMIUM,
                            md_referralCode = ''REFABC123''\<rparr>"
    by (simp add: example_session_def)
  from f have pv: "pay_id pay = 1"
    by (auto simp: example_two_referrals_def example_pending_def example_session_def)
  have fr: "find (referral_open example_session md) (referrals example_two_referrals)
      = Some \<lparr>ref_id = 1, promoterId = 1, participantEmail = ''alice@example.com'',
               referralCode = ''REFABC123'', ref_tier = PREMIUM, commission = 10,
               isConverted = False, convertedAt = None, ref_paymentId = None\<rparr>"
    by (simp add: rs mdv referral_open_def example_session_def)
  have ne: "md_referralCode md \<noteq> []" by (simp add: mdv)
  from c [rule_format, OF ne fr] have
    "referrals example_two_converted
       = map (\<lambda>x. if ref_id x = 1
                  then x\<lparr>isConverted := True, convertedAt := Some 5,
                         ref_paymentId := Some (pay_id pay)\<rparr>
                  else x) (referrals example_two_referrals)"
    by simp
  then have c2: "map isConverted (referrals example_two_converted) = [True, False]"
    and c3: "map ref_paymentId (referrals example_two_converted) = [Some 1, None]"
    by (simp_all add: rs pv)
  have c4: "map participantEmail (referrals example_two_referrals)
       = [customer_email example_session, ''bob@example.com'']"
    and c5: "map isConverted (referrals example_two_referrals) = [False, False]"
    by (simp_all add: rs example_session_def)
  have c6: "map pay_status (payments example_two_converted) = [COMPLETED]"
    by (simp add: example_two_converted_def)
  from example_register_step rb r0 c1 example_two_stray_step d c4 c5 example_two_step c2 c3 c6
  show ?thesis by (intro conjI)
qed

text \<open>
  C8 as stated fails for the tier FREE: a FREE registration with a valid referral
  code creates its referral already converted, and no payment exists.
\<close>

theorem free_referral_born_converted:
  "participantRegistrationSchema example_registration_free = None
   \<and> reg_tier example_registration_free = FREE
   \<and> referredByPromoter example_registration_free example_store
     = Inr (Some \<lparr>prom_id = 1, prom_userId = 1, prom_status = PROMOTER_APPROVED,
                   prom_referralCode = ''REFABC123'', totalReferrals = 0, totalRevenue = 0\<rparr>)
   \<and> fst (register_participant example_registration_free None None example_store)
     = Inr \<lparr>rg_id = 1, rg_email = ''alice@example.com'', rg_tier = FREE,
             rg_status = PARTICIPANT_APPROVED, rg_needsPayment = False\<rparr>
   \<and> map isConverted
         (referrals (snd (register_participant example_registration_free None None
                            example_store))) = [True]
   \<and> payments (snd (register_participant example_registration_free None None example_store))
       = []"
  by (simp add: register_participant_def participantRegistrationSchema_def
        example_registration_free_def example_store_def referredByPromoter_def transaction_def
        register_tx_def register_referral_def new_id_def auditLog_create_def json_field_def
        or_empty_def Let_def)

text \<open>
  C9. The code \<open>generateReferralCode\<close> returns is the referral code of no existing
  promoter, and it is one of the candidates drawn. The generator returns as soon as a
  drawn candidate is absent from the existing codes: whenever some draw is free, the
  generator does return a code. The promoter row a registration stores carries that code,
  so at the time of the check no other promoter holds it.
\<close>

theorem generateReferralCode_unique:
  "(generateReferralCode draws ps = Some code \<longrightarrow>
      list_all (\<lambda>p. prom_referralCode p \<noteq> code) ps
      \<and> (\<exists>r\<in>set draws. code = ''REF'' @ map toUpperCase r))
   \<and> ((\<exists>r\<in>set draws. list_all (\<lambda>p. prom_referralCode p \<noteq> ''REF'' @ map toUpperCase r) ps) \<longrightarrow>
      (\<exists>c. generateReferralCode draws ps = Some c))
   \<and> (register_promoter draws d ip ua s = Some (Inr a, s') \<longrightarrow>
      (\<exists>p. promoters s' = promoters s @ [p] \<and> prom_referralCode p = ap_referralCode a
           \<and> list_all (\<lambda>q. prom_referralCode q \<noteq> prom_referralCode p) (promoters s)))"
proof (intro conjI impI)
  assume "generateReferralCode draws ps = Some code"
  from generateReferralCode_Some [OF this]
  show "list_all (\<lambda>p. prom_referralCode p \<noteq> code) ps"
    and "\<exists>r\<in>set draws. code = ''REF'' @ map toUpperCase r" by simp_all
next
  assume "\<exists>r\<in>set draws. list_all (\<lambda>p. prom_referralCode p \<noteq> ''REF'' @ map toUpperCase r) ps"
  then show "\<exists>c. generateReferralCode draws ps = Some c" by (rule generateReferralCode_returns)
next
  assume "register_promoter draws d ip ua s = Some (Inr a, s')"
  from register_promoter_Inr [OF this] obtain code where
    g: "generateReferralCode draws (promoters s) = Some code" and a: "ap_referralCode a = code"
    and p: "promoters s' = promoters s @
                [\<lparr>prom_id = new_id (map prom_id (promoters s)),
                  prom_userId = new_id (map user_id (users s)),
                  prom_status = PROMOTER_PENDING, prom_referralCode = code,
                  totalReferrals = 0, totalRevenue = 0\<rparr>]" by blast
  from generateReferralCode_Some [OF g] a p
  show "\<exists>p. promoters s' = promoters s @ [p] \<and> prom_referralCode p = ap_referralCode a
           \<and> list_all (\<lambda>q. prom_referralCode q \<noteq> prom_referralCode p) (promoters s)"
    by simp
qed

theorem generateReferralCode_unique_witness:
  "map prom_referralCode (promoters example_store) = [''REFABC123'']
   \<and> generateReferralCode [''abc123'', ''k3x9q2''] (promoters example_store) = Some ''REFK3X9Q2''
   \<and> list_all (\<lambda>p. prom_referralCode p \<noteq> ''REFK3X9Q2'') (promoters example_store)
   \<and> list_all (\<lambda>p. prom_referralCode p \<noteq> ''REF'' @ map toUpperCase ''k3x9q2'')
         (promoters example_store)
   \<and> map_option fst
         (register_promoter [''abc123'', ''k3x9q2''] example_application None None example_store)
       = Some (Inr \<lparr>ap_id = 2, ap_email = ''carol@example.com'',
                      ap_status = PROMOTER_PENDING, ap_referralCode = ''REFK3X9Q2''\<rparr>)
   \<and> map prom_referralCode
         (promoters (snd (the (register_promoter [''abc123'', ''k3x9q2''] example_application
                                 None None example_store))))
       = [''REFABC123'', ''REFK3X9Q2'']"
  using generateReferralCode_unique
    [where draws = "[''abc123'', ''k3x9q2'']" and ps = "promoters example_store"
       and code = "''REFK3X9Q2''" and d = example_application and ip = None and ua = None
       and s = example_store
       and a = "\<lparr>ap_id = 2, ap_email = ''carol@example.com'',
                  ap_status = PROMOTER_PENDING, ap_referralCode = ''REFK3X9Q2''\<rparr>"
       and s' = "snd (the (register_promoter [''abc123'', ''k3x9q2''] example_application
                             None None example_store))"]
  by (simp add: example_store_def example_application_def example_toUpperCase Let_def
        register_promoter_def promoterRegistrationSchema_def transaction_def promoter_tx_def
        auditLog_create_def new_id_def)

text \<open>
  C10. A checkout session created for a participant with no referrer carries the empty
  string as the referral code of its metadata. A checkout-completed event whose metadata
  referral code is the empty string skips the referral branch: the branch returns the
  store it was given, and after the handler the referrals and the promoters (and the
  users and the provider's sessions) are the ones before it, whether the transaction
  committed or not.
\<close>

theorem unreferred_checkout_skips_referral:
  "(find (\<lambda>q. part_id q = cs_participantId body) (participants s0) = Some part \<longrightarrow>
    referredBy part = None \<longrightarrow>
    create_session stripeCreate uid body ip ua s0 = (Inr created, s1) \<longrightarrow>
      (\<exists>cs. stripeSessions s1 = stripeSessions s0 @ [cs] \<and> session_id cs = cr_sessionId created
          \<and> map_option md_referralCode (session_metadata cs) = Some []))
   \<and> (session_metadata session = Some md \<longrightarrow> md_referralCode md = [] \<longrightarrow>
        process_referral now session md pay tx = Inr tx
      \<and> referrals (snd (handleCheckoutSessionCompleted now session s)) = referrals s
      \<and> promoters (snd (handleCheckoutSessionCompleted now session s)) = promoters s
      \<and> users (snd (handleCheckoutSessionCompleted now session s)) = users s
      \<and> stripeSessions (snd (handleCheckoutSessionCompleted now session s)) = stripeSessions s)"
proof (intro conjI impI)
  assume f: "find (\<lambda>q. part_id q = cs_participantId body) (participants s0) = Some part"
    and r: "referredBy part = None"
    and c: "create_session stripeCreate uid body ip ua s0 = (Inr created, s1)"
  from create_session_Inr [OF c] f r
  show "\<exists>cs. stripeSessions s1 = stripeSessions s0 @ [cs] \<and> session_id cs = cr_sessionId created
          \<and> map_option md_referralCode (session_metadata cs) = Some []"
    by (auto simp: or_empty_def)
next
  assume "session_metadata session = Some md" "md_referralCode md = []"
  then show "process_referral now session md pay tx = Inr tx"
    by (simp add: process_referral_empty)
next
  assume a: "session_metadata session = Some md" "md_referralCode md = []"
  from handle_checkout_no_code_frame [OF a]
  show "referrals (snd (handleCheckoutSessionCompleted now session s)) = referrals s"
    and "promoters (snd (handleCheckoutSessionCompleted now session s)) = promoters s"
    and "users (snd (handleCheckoutSessionCompleted now session s)) = users s"
    and "stripeSessions (snd (handleCheckoutSessionCompleted now session s)) = stripeSessions s"
    by simp_all
qed

theorem unreferred_checkout_skips_referral_witness:
  "find (\<lambda>q. part_id q = cs_participantId example_body_vip) (participants example_unreferred)
     = Some \<lparr>part_id = 2, part_userId = 3, part_tier = VIP,
              part_status = PARTICIPANT_PENDING, referredBy = None\<rparr>
   \<and> fst (create_session example_provider 3 example_body_vip None None example_unreferred)
     = Inr \<lparr>cr_sessionId = ''cs_test_1'',
             cr_sessionUrl = ''https://checkout.example/cs_test_1'',
             cr_paymentId = 1, cr_amount = 299, cr_tier = VIP\<rparr>
   \<and> (\<exists>cs. stripeSessions
               (snd (create_session example_provider 3 example_body_vip None None
                  example_unreferred))
             = stripeSessions example_unreferred @ [cs]
          \<and> session_id cs = ''cs_test_1''
          \<and> map_option md_referralCode (session_metadata cs) = Some [])
   \<and> map_option md_referralCode (session_metadata example_session_vip) = Some []
   \<and> fst (handleCheckoutSessionCompleted 9 example_session_vip
             (snd (create_session example_provider 3 example_body_vip None None
                example_unreferred))) = Inr ()
   \<and> referrals (snd (handleCheckoutSessionCompleted 9 example_session_vip
             (snd (create_session example_provider 3 example_body_vip None None
                example_unreferred)))) = referrals example_unreferred
   \<and> promoters (snd (handleCheckoutSessionCompleted 9 example_session_vip
             (snd (create_session example_provider 3 example_body_vip None None
                example_unreferred)))) = promoters example_unreferred
   \<and> referrals example_unreferred \<noteq> [] \<and> promoters example_unreferred \<noteq> []"
  using unreferred_checkout_skips_referral
    [where body = example_body_vip and ?s0.0 = example_unreferred
       and part = "\<lparr>part_id = 2, part_userId = 3, part_tier = VIP,
                     part_status = PARTICIPANT_PENDING, referredBy = None\<rparr>"
       and stripeCreate = example_provider and uid = 3 and ip = None and ua = None
       and created = "\<lparr>cr_sessionId = ''cs_test_1'',
                        cr_sessionUrl = ''https://checkout.example/cs_test_1'',
                        cr_paymentId = 1, cr_amount = 299, cr_tier = VIP\<rparr>"
       and ?s1.0 = "snd (create_session example_provider 3 example_body_vip None None
                      example_unreferred)"
       and session = example_session_vip
       and md = "\<lparr>md_participantId = 2, md_userId = 3, md_tier = VIP, md_referralCode = []\<rparr>"
       and now = 9
       and s = "snd (create_session example_provider 3 example_body_vip None None
                      example_unreferred)"]
  by (simp add: example_body_vip_def example_unreferred_def example_registered_def
        example_provider_def example_session_vip_def create_session_def Let_def
        auditLog_create_def new_id_def or_empty_def handleCheckoutSessionCompleted_def
        transaction_def checkout_tx_def process_referral_def payment_completed_def
        participant_activated_def)

end
